theory Spec2Isabelle
  imports Complex_Main
begin

section \<open>JavaScript numbers\<close>

text \<open>
  The calculator works on JavaScript numbers, the IEEE 754 doubles. A number is one of
  the three special values or a finite value \<open>Num x\<close>; the doubles among the reals are
  the values that rounding leaves as they are (\<open>is_double\<close>). Sum, difference, product
  and quotient are the exact results rounded to the nearest double, ties to the even
  mantissa, with overflow to an infinity; the special values follow the IEEE rules. The
  model has one zero.
\<close>

datatype number = Num real | Infinity | MinusInfinity | NaN

definition signed_infinity :: "real \<Rightarrow> number" where
  "signed_infinity s = (if 0 < s then Infinity else if s < 0 then MinusInfinity else NaN)"

definition is_integral :: "real \<Rightarrow> bool" where
  "is_integral x = (x = of_int \<lfloor>x\<rfloor>)"

text \<open>
  Rounding to a double. A real \<open>x\<close> other than 0 lies in one binade
  \<open>2^e \<le> |x| < 2^(e+1)\<close>; the doubles there are the multiples of \<open>2^(e-52)\<close>, and below
  \<open>2^(-1022)\<close> the multiples of \<open>2^(-1074)\<close>. \<open>x\<close> goes to the nearest multiple, a tie to
  the even one; a result of \<open>2^1024\<close> or more is an infinity.
\<close>

definition round_half_even :: "real \<Rightarrow> int" where
  "round_half_even z =
     (let f = \<lfloor>z\<rfloor>; d = z - of_int f in
      if d < 1 / 2 then f else if 1 / 2 < d then f + 1 else if even f then f else f + 1)"

definition ulp_exponent :: "real \<Rightarrow> int" where
  "ulp_exponent x = max (\<lfloor>log 2 \<bar>x\<bar>\<rfloor> - 52) (- 1074)"

definition overflow_threshold :: real where
  "overflow_threshold = 2 ^ 1024"

definition round64 :: "real \<Rightarrow> number" where
  "round64 x =
     (if x = 0 then Num 0
      else let u = 2 powr of_int (ulp_exponent x);
               y = of_int (round_half_even (x / u)) * u
           in if overflow_threshold \<le> \<bar>y\<bar> then signed_infinity x else Num y)"

definition is_double :: "real \<Rightarrow> bool" where
  "is_double x = (round64 x = Num x)"

instantiation number :: "{uminus, plus, minus, times, inverse, ord}"
begin

fun uminus_number :: "number \<Rightarrow> number" where
  "uminus_number (Num a) = Num (- a)"
| "uminus_number Infinity = MinusInfinity"
| "uminus_number MinusInfinity = Infinity"
| "uminus_number NaN = NaN"

fun plus_number :: "number \<Rightarrow> number \<Rightarrow> number" where
  "plus_number (Num a) (Num b) = round64 (a + b)"
| "plus_number NaN _ = NaN"
| "plus_number _ NaN = NaN"
| "plus_number Infinity MinusInfinity = NaN"
| "plus_number MinusInfinity Infinity = NaN"
| "plus_number Infinity _ = Infinity"
| "plus_number _ Infinity = Infinity"
| "plus_number MinusInfinity _ = MinusInfinity"
| "plus_number _ MinusInfinity = MinusInfinity"

definition minus_number :: "number \<Rightarrow> number \<Rightarrow> number" where
  "minus_number a b = a + (- b)"

fun times_number :: "number \<Rightarrow> number \<Rightarrow> number" where
  "times_number (Num a) (Num b) = round64 (a * b)"
| "times_number NaN _ = NaN"
| "times_number _ NaN = NaN"
| "times_number Infinity (Num b) = signed_infinity b"
| "times_number (Num a) Infinity = signed_infinity a"
| "times_number MinusInfinity (Num b) = signed_infinity (- b)"
| "times_number (Num a) MinusInfinity = signed_infinity (- a)"
| "times_number Infinity Infinity = Infinity"
| "times_number MinusInfinity MinusInfinity = Infinity"
| "times_number Infinity MinusInfinity = MinusInfinity"
| "times_number MinusInfinity Infinity = MinusInfinity"

fun divide_number :: "number \<Rightarrow> number \<Rightarrow> number" where
  "divide_number (Num a) (Num b) = (if b = 0 then signed_infinity a else round64 (a / b))"
| "divide_number NaN _ = NaN"
| "divide_number _ NaN = NaN"
| "divide_number (Num a) Infinity = Num 0"
| "divide_number (Num a) MinusInfinity = Num 0"
| "divide_number Infinity (Num b) = (if 0 \<le> b then Infinity else MinusInfinity)"
| "divide_number MinusInfinity (Num b) = (if 0 \<le> b then MinusInfinity else Infinity)"
| "divide_number Infinity _ = NaN"
| "divide_number MinusInfinity _ = NaN"

definition inverse_number :: "number \<Rightarrow> number" where
  "inverse_number a = divide (Num 1) a"

fun less_eq_number :: "number \<Rightarrow> number \<Rightarrow> bool" where
  "less_eq_number (Num a) (Num b) = (a \<le> b)"
| "less_eq_number NaN _ = False"
| "less_eq_number _ NaN = False"
| "less_eq_number MinusInfinity _ = True"
| "less_eq_number _ Infinity = True"
| "less_eq_number Infinity _ = False"
| "less_eq_number _ MinusInfinity = False"

fun less_number :: "number \<Rightarrow> number \<Rightarrow> bool" where
  "less_number (Num a) (Num b) = (a < b)"
| "less_number NaN _ = False"
| "less_number _ NaN = False"
| "less_number Infinity _ = False"
| "less_number _ MinusInfinity = False"
| "less_number MinusInfinity _ = True"
| "less_number _ Infinity = True"

instance ..

end

text \<open>
  \<^verbatim>\<open>Math.exp\<close> and \<^verbatim>\<open>Math.pow\<close>. The language standard fixes their values at the
  special arguments and leaves the others to the implementation, as an approximation
  of the exact value. What the host's library returns there is a parameter.
\<close>

record Math =
  exp_value :: "real \<Rightarrow> number"
  pow_value :: "real \<Rightarrow> real \<Rightarrow> number"

fun Math_exp :: "Math \<Rightarrow> number \<Rightarrow> number" where
  "Math_exp lib (Num x) = (if x = 0 then Num 1 else exp_value lib x)"
| "Math_exp lib Infinity = Infinity"
| "Math_exp lib MinusInfinity = Num 0"
| "Math_exp lib NaN = NaN"

text \<open>
  The case order of the standard for \<^verbatim>\<open>Math.pow\<close>: an exponent that is not a number,
  a zero exponent, a base that is not a number, the infinite and the zero bases, the
  infinite exponents, a negative base under a fractional exponent, and last the
  library's value.
\<close>

fun Math_pow :: "Math \<Rightarrow> number \<Rightarrow> number \<Rightarrow> number" where
  "Math_pow lib base NaN = NaN"
| "Math_pow lib base (Num e) =
     (if e = 0 then Num 1
      else case base of
        NaN \<Rightarrow> NaN
      | Infinity \<Rightarrow> (if 0 < e then Infinity else Num 0)
      | MinusInfinity \<Rightarrow>
          (if 0 < e then (if is_integral e \<and> odd \<lfloor>e\<rfloor> then MinusInfinity else Infinity)
           else Num 0)
      | Num b \<Rightarrow>
          (if b = 0 then (if 0 < e then Num 0 else Infinity)
           else if b < 0 \<and> \<not> is_integral e then NaN
           else pow_value lib b e))"
| "Math_pow lib base Infinity =
     (case base of
        NaN \<Rightarrow> NaN
      | Infinity \<Rightarrow> Infinity
      | MinusInfinity \<Rightarrow> Infinity
      | Num b \<Rightarrow>
          (if b = 0 then Num 0
           else if 1 < \<bar>b\<bar> then Infinity else if \<bar>b\<bar> = 1 then NaN else Num 0))"
| "Math_pow lib base MinusInfinity =
     (case base of
        NaN \<Rightarrow> NaN
      | Infinity \<Rightarrow> Num 0
      | MinusInfinity \<Rightarrow> Num 0
      | Num b \<Rightarrow>
          (if b = 0 then Infinity
           else if 1 < \<bar>b\<bar> then Num 0 else if \<bar>b\<bar> = 1 then NaN else Infinity))"

section \<open>The data of the calculator\<close>

datatype CompoundingFrequency =
  annually | semi_annually | quarterly | monthly | weekly | daily | continuously

datatype js_error = RangeError | TypeError | SyntaxError

text \<open>
  A \<^verbatim>\<open>Date\<close> is read through the calendar fields of its instant in the local time
  zone of the host, the fields that \<^verbatim>\<open>getFullYear\<close> and \<^verbatim>\<open>setFullYear\<close> work on: the
  year, the month from 0 to 11, the day of the month from 1, and the milliseconds since
  local midnight. \<open>Invalid_Date\<close> is the date whose time value is not a number.
\<close>

record DateFields =
  fullYear :: int
  month :: nat
  dayOfMonth :: nat
  msOfDay :: nat

datatype Date = Invalid_Date | Date_of DateFields

text \<open>
  The records of the source. Their number and date fields are type parameters: the
  calculator works on \<open>(number, Date) CalculationParams\<close> and \<open>number CalculationResult\<close>,
  and the same shapes read back from storage carry what JSON keeps of a number and of a
  date (section on the history store). A missing or \<^verbatim>\<open>null\<close> start date is \<open>None\<close>.
\<close>

record ('n, 'd) CalculationParams =
  principal :: 'n
  rate :: 'n
  time :: 'n
  frequency :: CompoundingFrequency
  startDate :: "'d option"

record 'n YearlyBreakdown =
  year :: 'n
  amount :: 'n
  interestEarned :: 'n
  date :: "string option"

record 'n CalculationResult =
  finalAmount :: 'n
  totalInterest :: 'n
  yearlyBreakdown :: "'n YearlyBreakdown list"
  formula :: string

text \<open>
  \<^verbatim>\<open>CalculationHistory\<close> extends both interfaces; the model keeps the two groups of
  fields as two parts (no field name occurs in both), beside \<^verbatim>\<open>id\<close> and
  \<^verbatim>\<open>createdAt\<close>.
\<close>

record ('n, 'd) CalculationHistory =
  params_part :: "('n, 'd) CalculationParams"
  result_part :: "'n CalculationResult"
  id' :: string
  createdAt :: string

section \<open>Frequencies and formula labels\<close>

text \<open>
  The \<^verbatim>\<open>default\<close> branch of the source's switch (return 1) has no value of the type
  to reach it.
\<close>

fun getFrequencyValue :: "CompoundingFrequency \<Rightarrow> number" where
  "getFrequencyValue annually = Num 1"
| "getFrequencyValue semi_annually = Num 2"
| "getFrequencyValue quarterly = Num 4"
| "getFrequencyValue monthly = Num 12"
| "getFrequencyValue weekly = Num 52"
| "getFrequencyValue daily = Num 365"
| "getFrequencyValue continuously = Infinity"

text \<open>
  Strings are lists of code units; the multiplication sign of the continuous label is
  the code unit 0xD7.
\<close>

definition getFormula :: "CompoundingFrequency \<Rightarrow> string" where
  "getFormula freq =
     (if freq = continuously then ''A = P '' @ [CHR 0xD7] @ '' e^(rt)''
      else ''A = P(1 + r/n)^(nt)'')"

section \<open>Dates\<close>

text \<open>
  The calendar is the proleptic Gregorian one of the language standard. The host's time
  zone is a parameter \<open>tz\<close>: for a local calendar reading it gives the minutes that
  separate UTC from local time there (what \<^verbatim>\<open>getTimezoneOffset\<close> returns, 0 on a UTC
  host).
\<close>

definition InLeapYear :: "int \<Rightarrow> bool" where
  "InLeapYear y = (y mod 4 = 0 \<and> (y mod 100 \<noteq> 0 \<or> y mod 400 = 0))"

definition DaysInMonth :: "int \<Rightarrow> nat \<Rightarrow> nat" where
  "DaysInMonth y m =
     (if m = 1 then (if InLeapYear y then 29 else 28)
      else if m = 3 \<or> m = 5 \<or> m = 8 \<or> m = 10 then 30 else 31)"

definition valid_fields :: "DateFields \<Rightarrow> bool" where
  "valid_fields f =
     (month f < 12 \<and> 1 \<le> dayOfMonth f \<and> dayOfMonth f \<le> DaysInMonth (fullYear f) (month f)
      \<and> msOfDay f < 86400000)"

text \<open>
  \<^verbatim>\<open>MakeDay\<close> counts the day from the first of the month, so a day past the end of the
  month lands in the next month. One carry is enough here: the day comes from a date
  that exists in another year, it is at most 31.
\<close>

definition MakeDay :: "DateFields \<Rightarrow> DateFields" where
  "MakeDay f =
     (let n = DaysInMonth (fullYear f) (month f) in
      if dayOfMonth f \<le> n then f
      else if month f = 11
        then f\<lparr>fullYear := fullYear f + 1, month := 0, dayOfMonth := dayOfMonth f - n\<rparr>
        else f\<lparr>month := month f + 1, dayOfMonth := dayOfMonth f - n\<rparr>)"

definition next_day :: "DateFields \<Rightarrow> DateFields" where
  "next_day f =
     (if dayOfMonth f < DaysInMonth (fullYear f) (month f) then f\<lparr>dayOfMonth := dayOfMonth f + 1\<rparr>
      else if month f = 11 then f\<lparr>fullYear := fullYear f + 1, month := 0, dayOfMonth := 1\<rparr>
      else f\<lparr>month := month f + 1, dayOfMonth := 1\<rparr>)"

definition prev_day :: "DateFields \<Rightarrow> DateFields" where
  "prev_day f =
     (if 1 < dayOfMonth f then f\<lparr>dayOfMonth := dayOfMonth f - 1\<rparr>
      else if month f = 0 then f\<lparr>fullYear := fullYear f - 1, month := 11, dayOfMonth := 31\<rparr>
      else f\<lparr>month := month f - 1, dayOfMonth := DaysInMonth (fullYear f) (month f - 1)\<rparr>)"

text \<open>The UTC calendar reading of the instant that has the local reading \<open>f\<close>.\<close>

definition UTC_fields :: "(DateFields \<Rightarrow> int) \<Rightarrow> DateFields \<Rightarrow> DateFields" where
  "UTC_fields tz f =
     (let total = int (msOfDay f) + tz f * 60000;
          days = total div 86400000;
          g = (if 0 \<le> days then (next_day ^^ nat days) f else (prev_day ^^ nat (- days)) f)
      in g\<lparr>msOfDay := nat (total mod 86400000)\<rparr>)"

definition fields_le :: "DateFields \<Rightarrow> DateFields \<Rightarrow> bool" where
  "fields_le a b =
     (fullYear a < fullYear b \<or> fullYear a = fullYear b \<and>
       (month a < month b \<or> month a = month b \<and>
         (dayOfMonth a < dayOfMonth b \<or> dayOfMonth a = dayOfMonth b \<and> msOfDay a \<le> msOfDay b)))"

text \<open>
  \<^verbatim>\<open>TimeClip\<close>: a time value is kept within 100,000,000 days on either side of
  1970-01-01T00:00:00Z, that is from -271821-04-20 to +275760-09-13, both at UTC midnight.
\<close>

definition TimeClip :: "(DateFields \<Rightarrow> int) \<Rightarrow> DateFields \<Rightarrow> Date" where
  "TimeClip tz f =
     (let u = UTC_fields tz f in
      if fields_le \<lparr>fullYear = - 271821, month = 3, dayOfMonth = 20, msOfDay = 0\<rparr> u
         \<and> fields_le u \<lparr>fullYear = 275760, month = 8, dayOfMonth = 13, msOfDay = 0\<rparr>
      then Date_of f else Invalid_Date)"

definition getFullYear :: "Date \<Rightarrow> number" where
  "getFullYear d = (case d of Invalid_Date \<Rightarrow> NaN | Date_of f \<Rightarrow> Num (of_int (fullYear f)))"

definition ToIntegerOrInfinity :: "real \<Rightarrow> int" where
  "ToIntegerOrInfinity x = (if 0 \<le> x then \<lfloor>x\<rfloor> else \<lceil>x\<rceil>)"

text \<open>
  \<^verbatim>\<open>setFullYear\<close> keeps the local month, day and time of day and replaces the year. On
  an invalid date the method would restart from the time value 0; the calculator only
  passes the year it has read from the same date, which is \<open>NaN\<close> there, and the date
  stays invalid.
\<close>

definition setFullYear :: "(DateFields \<Rightarrow> int) \<Rightarrow> number \<Rightarrow> Date \<Rightarrow> Date" where
  "setFullYear tz y d =
     (case d of
        Invalid_Date \<Rightarrow> Invalid_Date
      | Date_of f \<Rightarrow>
          (case y of
             Num x \<Rightarrow> TimeClip tz (MakeDay (f\<lparr>fullYear := ToIntegerOrInfinity x\<rparr>))
           | _ \<Rightarrow> Invalid_Date))"

definition digit :: "nat \<Rightarrow> char" where
  "digit n = ''0123456789'' ! (n mod 10)"

definition pad2 :: "nat \<Rightarrow> string" where
  "pad2 n = [digit (n div 10), digit n]"

definition pad3 :: "nat \<Rightarrow> string" where
  "pad3 n = digit (n div 100) # pad2 n"

definition pad4 :: "nat \<Rightarrow> string" where
  "pad4 n = digit (n div 1000) # pad3 n"

definition pad6 :: "nat \<Rightarrow> string" where
  "pad6 n = digit (n div 100000) # digit (n div 10000) # pad4 n"

text \<open>Years from 0 to 9999 are written with four digits, the others with a sign and six.\<close>

definition iso_year :: "int \<Rightarrow> string" where
  "iso_year y =
     (if 0 \<le> y \<and> y \<le> 9999 then pad4 (nat y)
      else (if y < 0 then ''-'' else ''+'') @ pad6 (nat \<bar>y\<bar>))"

definition iso_date :: "DateFields \<Rightarrow> string" where
  "iso_date u = iso_year (fullYear u) @ ''-'' @ pad2 (month u + 1) @ ''-'' @ pad2 (dayOfMonth u)"

definition iso_time :: "nat \<Rightarrow> string" where
  "iso_time ms =
     pad2 (ms div 3600000) @ '':'' @ pad2 (ms div 60000 mod 60) @ '':''
     @ pad2 (ms div 1000 mod 60) @ ''.'' @ pad3 (ms mod 1000)"

text \<open>\<^verbatim>\<open>toISOString\<close> writes the UTC reading and raises on an invalid date.\<close>

definition toISOString :: "(DateFields \<Rightarrow> int) \<Rightarrow> Date \<Rightarrow> js_error + string" where
  "toISOString tz d =
     (case d of
        Invalid_Date \<Rightarrow> Inl RangeError
      | Date_of f \<Rightarrow>
          (let u = UTC_fields tz f in Inr (iso_date u @ ''T'' @ iso_time (msOfDay u) @ ''Z'')))"

text \<open>\<^verbatim>\<open>s.split('T')[0]\<close>: the text before the first \<^verbatim>\<open>T\<close>.\<close>

definition split_T_0 :: "string \<Rightarrow> string" where
  "split_T_0 s = takeWhile (\<lambda>c. c \<noteq> CHR ''T'') s"

section \<open>The compounding engine\<close>

text \<open>
  The loop counter \<^verbatim>\<open>year\<close> takes the whole numbers 1, 2, 3, ... in turn. A double
  holds every whole number up to \<open>2^53\<close> exactly, more than the rows an array can
  have, so the counter is a natural number \<open>yr\<close> here; it enters the arithmetic and
  the rows as the number \<open>Num (real yr)\<close>.

  \<^verbatim>\<open>xs[i]\<close> for a whole number \<open>i\<close>: the element when \<open>i\<close> is an index of the array,
  \<^verbatim>\<open>undefined\<close> (here \<open>None\<close>) otherwise.
\<close>

definition array_get :: "'a list \<Rightarrow> int \<Rightarrow> 'a option" where
  "array_get xs i = (if 0 \<le> i \<and> nat i < length xs then Some (xs ! nat i) else None)"

text \<open>
  The body of the yearly loop, in three parts. The amount at the end of the year \<open>y\<close>:
\<close>

definition yearAmount :: "Math \<Rightarrow> (number, Date) CalculationParams \<Rightarrow> number \<Rightarrow> number" where
  "yearAmount lib params y =
     (let n = getFrequencyValue (frequency params) in
      if frequency params = continuously
      then principal params * Math_exp lib ((rate params / Num 100) * y)
      else principal params * Math_pow lib (Num 1 + (rate params / Num 100) / n) (n * y))"

text \<open>
  The amount of the year before: the principal in year 1, else the amount of the row
  pushed last. Reading \<^verbatim>\<open>amount\<close> from a missing row would raise a type error.
\<close>

definition previousAmount ::
  "(number, Date) CalculationParams \<Rightarrow> nat \<Rightarrow> number YearlyBreakdown list
     \<Rightarrow> js_error + number" where
  "previousAmount params yr rows =
     (if yr = 1 then Inr (principal params)
      else case array_get rows (int yr - 2) of
             None \<Rightarrow> Inl TypeError
           | Some row \<Rightarrow> Inr (amount row))"

text \<open>
  The date of the row: absent without a start date, else a copy of the start date moved
  by \<open>yr\<close> years and written as the date part of its ISO string.
\<close>

definition yearDate ::
  "(DateFields \<Rightarrow> int) \<Rightarrow> (number, Date) CalculationParams \<Rightarrow> nat
     \<Rightarrow> js_error + string option" where
  "yearDate tz params yr =
     (case startDate params of
        None \<Rightarrow> Inr None
      | Some sd \<Rightarrow>
          (case toISOString tz (setFullYear tz (getFullYear sd + Num (real yr)) sd) of
             Inl e \<Rightarrow> Inl e
           | Inr s \<Rightarrow> Inr (Some (split_T_0 s))))"

definition breakdown_row ::
  "Math \<Rightarrow> (DateFields \<Rightarrow> int) \<Rightarrow> (number, Date) CalculationParams \<Rightarrow> nat
     \<Rightarrow> number YearlyBreakdown list \<Rightarrow> js_error + number YearlyBreakdown" where
  "breakdown_row lib tz params yr rows =
     (case previousAmount params yr rows of
        Inl e \<Rightarrow> Inl e
      | Inr prev \<Rightarrow>
          (case yearDate tz params yr of
             Inl e \<Rightarrow> Inl e
           | Inr d \<Rightarrow>
               Inr \<lparr>year = Num (real yr), amount = yearAmount lib params (Num (real yr)),
                    interestEarned = yearAmount lib params (Num (real yr)) - prev, date = d\<rparr>))"

text \<open>
  The loop \<^verbatim>\<open>for (let year = 1; year <= time; year++)\<close>. It has no bound when \<open>time\<close>
  is infinite, so it is a partial function: \<open>None\<close> is a loop that never ends,
  \<open>Some (Inl e)\<close> an exception, \<open>Some (Inr rows)\<close> the rows pushed.
\<close>

partial_function (option) yearly_loop ::
  "Math \<Rightarrow> (DateFields \<Rightarrow> int) \<Rightarrow> (number, Date) CalculationParams \<Rightarrow> nat
     \<Rightarrow> number YearlyBreakdown list \<Rightarrow> (js_error + number YearlyBreakdown list) option" where
  "yearly_loop lib tz params yr rows =
     (if Num (real yr) \<le> time params
      then case breakdown_row lib tz params yr rows of
             Inl e \<Rightarrow> Some (Inl e)
           | Inr row \<Rightarrow> yearly_loop lib tz params (yr + 1) (rows @ [row])
      else Some (Inr rows))"

definition calculateCompoundInterest ::
  "Math \<Rightarrow> (DateFields \<Rightarrow> int) \<Rightarrow> (number, Date) CalculationParams
     \<Rightarrow> (js_error + number CalculationResult) option" where
  "calculateCompoundInterest lib tz params =
     (let n = getFrequencyValue (frequency params);
          final =
            (if frequency params = continuously
             then principal params * Math_exp lib ((rate params / Num 100) * time params)
             else principal params
                    * Math_pow lib (Num 1 + (rate params / Num 100) / n) (n * time params))
      in case yearly_loop lib tz params 1 [] of
           None \<Rightarrow> None
         | Some (Inl e) \<Rightarrow> Some (Inl e)
         | Some (Inr rows) \<Rightarrow>
             Some (Inr \<lparr>finalAmount = final, totalInterest = final - principal params,
                        yearlyBreakdown = rows, formula = getFormula (frequency params)\<rparr>))"

section \<open>The history store\<close>

text \<open>
  What \<^verbatim>\<open>JSON.stringify\<close> followed by \<^verbatim>\<open>JSON.parse\<close> keeps of a value. A finite
  number comes back as itself, \<open>NaN\<close> and the infinities as \<^verbatim>\<open>null\<close> (\<open>None\<close>). A
  date is written through \<^verbatim>\<open>toJSON\<close>, its ISO string, or \<^verbatim>\<open>null\<close> when it is
  invalid, and comes back as that string. A row's \<^verbatim>\<open>date\<close> of \<^verbatim>\<open>undefined\<close> is left
  out and reads as \<^verbatim>\<open>undefined\<close> again.
\<close>

definition JSON_number :: "number \<Rightarrow> real option" where
  "JSON_number x = (case x of Num a \<Rightarrow> Some a | _ \<Rightarrow> None)"

definition toJSON :: "(DateFields \<Rightarrow> int) \<Rightarrow> Date \<Rightarrow> string option" where
  "toJSON tz d = (case toISOString tz d of Inl e \<Rightarrow> None | Inr s \<Rightarrow> Some s)"

definition JSON_params ::
  "(DateFields \<Rightarrow> int) \<Rightarrow> (number, Date) CalculationParams
     \<Rightarrow> (real option, string) CalculationParams" where
  "JSON_params tz p =
     \<lparr>principal = JSON_number (principal p), rate = JSON_number (rate p),
      time = JSON_number (time p), frequency = frequency p,
      startDate = Option.bind (startDate p) (toJSON tz)\<rparr>"

definition JSON_row :: "number YearlyBreakdown \<Rightarrow> real option YearlyBreakdown" where
  "JSON_row row =
     \<lparr>year = JSON_number (year row), amount = JSON_number (amount row),
      interestEarned = JSON_number (interestEarned row), date = date row\<rparr>"

definition JSON_result :: "number CalculationResult \<Rightarrow> real option CalculationResult" where
  "JSON_result r =
     \<lparr>finalAmount = JSON_number (finalAmount r), totalInterest = JSON_number (totalInterest r),
      yearlyBreakdown = map JSON_row (yearlyBreakdown r), formula = formula r\<rparr>"

definition JSON_item ::
  "(DateFields \<Rightarrow> int) \<Rightarrow> (number, Date) CalculationHistory
     \<Rightarrow> (real option, string) CalculationHistory" where
  "JSON_item tz item =
     \<lparr>params_part = JSON_params tz (params_part item),
      result_part = JSON_result (result_part item),
      id' = id' item, createdAt = createdAt item\<rparr>"

text \<open>
  A text held by \<^verbatim>\<open>localStorage\<close> is told apart by what \<^verbatim>\<open>JSON.parse\<close> makes of it:
  the empty string, a text that is not JSON, or the JSON text of a list of history
  records (the declared type of the collection). Writing a text always succeeds: the
  quota of the storage is outside the model.
\<close>

datatype storage_text =
  Empty_text
  | Unparsable_text
  | JSON_text "(real option, string) CalculationHistory list"

type_synonym localStorage = "string \<rightharpoonup> storage_text"

definition getItem :: "localStorage \<Rightarrow> string \<Rightarrow> storage_text option" where
  "getItem store key = store key"

definition setItem :: "string \<Rightarrow> storage_text \<Rightarrow> localStorage \<Rightarrow> localStorage" where
  "setItem key text store = store(key \<mapsto> text)"

definition JSON_parse ::
  "storage_text \<Rightarrow> js_error + (real option, string) CalculationHistory list" where
  "JSON_parse text =
     (case text of
        Empty_text \<Rightarrow> Inl SyntaxError
      | Unparsable_text \<Rightarrow> Inl SyntaxError
      | JSON_text items \<Rightarrow> Inr items)"

definition JSON_stringify :: "(real option, string) CalculationHistory list \<Rightarrow> storage_text" where
  "JSON_stringify items = JSON_text items"

text \<open>
  What a call reads from its host: the time zone, the clock as \<^verbatim>\<open>Date.now()\<close>
  (milliseconds since 1970) and as \<^verbatim>\<open>new Date()\<close>, and the text of
  \<^verbatim>\<open>Math.random().toString(36)\<close>.
\<close>

record Host =
  timezone :: "DateFields \<Rightarrow> int"
  Date_now :: int
  new_Date :: DateFields
  Math_random_toString_36 :: string

definition digit36 :: "nat \<Rightarrow> char" where
  "digit36 n = ''0123456789abcdefghijklmnopqrstuvwxyz'' ! (n mod 36)"

fun digits36 :: "nat \<Rightarrow> string" where
  "digits36 n = (if n < 36 then [digit36 n] else digits36 (n div 36) @ [digit36 n])"

declare digits36.simps [simp del]

definition toString_36 :: "int \<Rightarrow> string" where
  "toString_36 i = (if i < 0 then ''-'' @ digits36 (nat (- i)) else digits36 (nat i))"

definition generateId :: "Host \<Rightarrow> string" where
  "generateId host = toString_36 (Date_now host) @ drop 2 (Math_random_toString_36 host)"

definition getCalculationHistory ::
  "localStorage \<Rightarrow> js_error + (real option, string) CalculationHistory list" where
  "getCalculationHistory store =
     (case getItem store ''calculationHistory'' of
        None \<Rightarrow> Inr []
      | Some history \<Rightarrow> (if history \<noteq> Empty_text then JSON_parse history else Inr []))"

text \<open>
  \<^verbatim>\<open>unshift\<close> puts the new item before the records that were read, and the array is
  written back: the new item in its JSON form, the records as they were read.
\<close>

definition saveCalculation ::
  "Host \<Rightarrow> (number, Date) CalculationParams \<Rightarrow> number CalculationResult \<Rightarrow> localStorage
     \<Rightarrow> js_error + localStorage" where
  "saveCalculation host params result store =
     (let new_id = generateId host in
      case toISOString (timezone host) (Date_of (new_Date host)) of
        Inl e \<Rightarrow> Inl e
      | Inr now \<Rightarrow>
          (let historyItem =
                 \<lparr>params_part = params, result_part = result, id' = new_id, createdAt = now\<rparr>
           in case getCalculationHistory store of
                Inl e \<Rightarrow> Inl e
              | Inr history \<Rightarrow>
                  Inr (setItem ''calculationHistory''
                        (JSON_stringify (JSON_item (timezone host) historyItem # history)) store)))"

definition deleteCalculation :: "string \<Rightarrow> localStorage \<Rightarrow> js_error + localStorage" where
  "deleteCalculation i store =
     (case getCalculationHistory store of
        Inl e \<Rightarrow> Inl e
      | Inr history \<Rightarrow>
          (let updatedHistory = filter (\<lambda>item. id' item \<noteq> i) history
           in Inr (setItem ''calculationHistory'' (JSON_stringify updatedHistory) store)))"

definition clearCalculationHistory :: "localStorage \<Rightarrow> localStorage" where
  "clearCalculationHistory store = setItem ''calculationHistory'' (JSON_stringify []) store"

section \<open>The amounts of the specification\<close>

text \<open>
  The data model of the specification gives each discrete frequency its periods per
  year: 1, 2, 4, 12, 52 and 365. Continuous compounding has none; the 0 below is never
  used.
\<close>

fun periods_per_year :: "CompoundingFrequency \<Rightarrow> nat" where
  "periods_per_year annually = 1"
| "periods_per_year semi_annually = 2"
| "periods_per_year quarterly = 4"
| "periods_per_year monthly = 12"
| "periods_per_year weekly = 52"
| "periods_per_year daily = 365"
| "periods_per_year continuously = 0"

text \<open>
  The amount at the end of year \<open>y\<close>, in the words of the specification:
  principal \<times> (1 + (rate/100)/n)^(n \<times> y) for a discrete frequency with \<open>n\<close> periods per
  year, principal \<times> e^((rate/100) \<times> y) for continuous compounding, and the principal
  at year 0. All arithmetic is in doubles, and the power and the exponential are the
  calls of the host's library: a match with a plain call of the power function is what
  the specification takes as correct.
\<close>

definition amount_at_year ::
  "Math \<Rightarrow> number \<Rightarrow> number \<Rightarrow> CompoundingFrequency \<Rightarrow> nat \<Rightarrow> number" where
  "amount_at_year lib P R freq y =
     (if y = 0 then P
      else if freq = continuously then P * Math_exp lib ((R / Num 100) * Num (real y))
      else P * Math_pow lib (Num 1 + (R / Num 100) / Num (real (periods_per_year freq)))
                 (Num (real (periods_per_year freq)) * Num (real y)))"

section \<open>A library for the examples\<close>

text \<open>
  The examples below run on a library that returns the double nearest to the exact
  power and exponential. A negative base has a whole exponent when the library is
  asked (the other case is \<open>NaN\<close> before the call), and the power takes its sign from
  the parity of the exponent.
\<close>

definition nearest_double_library :: Math where
  "nearest_double_library =
     \<lparr>exp_value = (\<lambda>x. round64 (exp x)),
      pow_value = (\<lambda>b e. round64 (if b < 0 then (if even \<lfloor>e\<rfloor> then 1 else - 1) * (\<bar>b\<bar> powr e)
                                   else b powr e))\<rparr>"

section \<open>Rounding to a double\<close>

text \<open>
  Facts about \<open>round64\<close>: a value \<open>m \<times> 2^e\<close> with a mantissa below \<open>2^53\<close> and an
  exponent from -1074 to 971 is a double, so every whole number below \<open>2^53\<close> is one;
  a real whose magnitude stays below two thirds of \<open>2^1024\<close> rounds to a finite number;
  a double is below \<open>2^1024\<close>; and what rounding returns is a double.
\<close>

lemma pow53_powr: "(2::real) ^ 53 * 2 powr of_int e = 2 powr (of_int e + 53)"
proof -
  have "(2::real) ^ 53 = 2 powr 53" by (simp only: powr_numeral [symmetric] zero_le_numeral)
  then show ?thesis by (simp only: powr_add mult.commute)
qed

lemma abs_scaled: "\<bar>of_int m * 2 powr of_int e\<bar> = (of_int \<bar>m\<bar> * 2 powr of_int e :: real)"
  by (simp add: abs_mult)

lemma m53: "\<bar>m\<bar> < 2 ^ 53 \<Longrightarrow> of_int \<bar>m::int\<bar> < (2::real) ^ 53"
  by (metis of_int_less_numeral_power_cancel_iff)

lemma ulp_exponent_scaled:
  assumes "m \<noteq> 0" "\<bar>m\<bar> < 2 ^ 53" "- 1074 \<le> e"
  shows "ulp_exponent (of_int m * 2 powr of_int e) \<le> e"
proof -
  let ?x = "of_int m * 2 powr of_int e :: real"
  have x0: "?x \<noteq> 0" using assms(1) by simp
  have "\<bar>?x\<bar> < 2 ^ 53 * 2 powr of_int e"
    unfolding abs_scaled using m53 [OF assms(2)] by simp
  also have "\<dots> = 2 powr (of_int e + 53)" by (rule pow53_powr)
  finally have "log 2 \<bar>?x\<bar> < of_int e + 53" using x0 by (simp add: log_less_iff)
  then have "\<lfloor>log 2 \<bar>?x\<bar>\<rfloor> < e + 53" by (simp add: floor_less_iff)
  then show ?thesis using assms(3) by (simp add: ulp_exponent_def)
qed


lemma round_half_even_of_int [simp]: "round_half_even (of_int k) = k"
  by (simp add: round_half_even_def)

lemma scaled_is_int:
  assumes "ue \<le> e"
  shows "(of_int m * 2 powr of_int e) / 2 powr of_int ue = (of_int (m * 2 ^ nat (e - ue)) :: real)"
proof -
  define k where "k = nat (e - ue)"
  have "(2::real) powr of_int e / 2 powr of_int ue = 2 powr (of_int e - of_int ue)"
    by (simp only: powr_diff)
  also have "(of_int e - of_int ue :: real) = real k"
    using assms unfolding k_def by simp
  also have "(2::real) powr real k = 2 ^ k" by (simp add: powr_realpow)
  finally have "(2::real) powr of_int e / 2 powr of_int ue = 2 ^ k" .
  then have "(of_int m * 2 powr of_int e) / 2 powr of_int ue = (of_int m * 2 ^ k :: real)"
    by (simp only: times_divide_eq_right [symmetric])
  then show ?thesis unfolding k_def by simp
qed

lemma grid_scaled:
  assumes "ue \<le> e"
  shows "of_int (round_half_even ((of_int m * 2 powr of_int e) / 2 powr of_int ue)) * 2 powr of_int ue
     = (of_int m * 2 powr of_int e :: real)"
proof -
  have "of_int (round_half_even ((of_int m * 2 powr of_int e) / 2 powr of_int ue))
      = (of_int m * 2 powr of_int e) / (2 powr of_int ue :: real)"
    by (simp only: scaled_is_int [OF assms] round_half_even_of_int)
  then show ?thesis by simp
qed

lemma pow53_powr971: "(2::real) ^ 53 * 2 powr 971 = overflow_threshold"
proof -
  have "(2::real) powr 971 = 2 ^ 971" by (rule powr_numeral) simp
  then have "(2::real) ^ 53 * 2 powr 971 = 2 ^ (53 + 971)" by (simp only: power_add)
  also have "(53::nat) + 971 = 1024" by simp
  finally show ?thesis by (simp only: overflow_threshold_def)
qed

lemma below_threshold:
  assumes "\<bar>m\<bar> < 2 ^ 53" "e \<le> 971"
  shows "\<bar>of_int m * 2 powr of_int e\<bar> < overflow_threshold"
proof -
  define B :: real where "B = 2 powr 971"
  have "2 powr of_int e \<le> B" unfolding B_def by (rule powr_mono) (use assms in simp_all)
  moreover have "0 < (2::real) powr of_int e" by simp
  ultimately have "of_int \<bar>m\<bar> * 2 powr of_int e < 2 ^ 53 * B"
    using m53 [OF assms(1)] by (intro mult_less_le_imp_less) simp_all
  also have "\<dots> = overflow_threshold" unfolding B_def by (rule pow53_powr971)
  finally show ?thesis by (simp only: abs_scaled)
qed


lemma round64_0 [simp]: "round64 0 = Num 0"
  by (simp add: round64_def)

lemma round64_exact:
  assumes "\<bar>m\<bar> < 2 ^ 53" "- 1074 \<le> e" "e \<le> 971"
  shows "round64 (of_int m * 2 powr of_int e) = Num (of_int m * 2 powr of_int e)"
proof (cases "m = 0")
  case True
  then show ?thesis by simp
next
  case False
  let ?x = "of_int m * 2 powr of_int e :: real"
  have x0: "?x \<noteq> 0" using False by simp
  have ue: "ulp_exponent ?x \<le> e" using False assms(1,2) by (rule ulp_exponent_scaled)
  have "\<not> overflow_threshold \<le> \<bar>?x\<bar>"
    using below_threshold [OF assms(1,3)] by (simp only: not_le)
  then show ?thesis
    unfolding round64_def Let_def grid_scaled [OF ue] using x0 by (simp only: if_False)
qed

lemma round64_of_int: "\<bar>z\<bar> < 2 ^ 53 \<Longrightarrow> round64 (of_int z) = Num (of_int z)"
  using round64_exact [of z 0] by simp

lemma round64_of_nat: "n < 2 ^ 53 \<Longrightarrow> round64 (real n) = Num (real n)"
  using round64_of_int [of "int n"] by simp

lemma round64_numeral [simp]:
  "(numeral w :: nat) < 2 ^ 53 \<Longrightarrow> round64 (numeral w) = Num (numeral w)"
  using round64_of_nat [of "numeral w"] by simp

lemma round64_1 [simp]: "round64 1 = Num 1"
  using round64_of_nat [of 1] by simp

lemma is_double_of_nat: "n < 2 ^ 53 \<Longrightarrow> is_double (real n)"
  by (simp add: is_double_def round64_of_nat)

lemma is_double_numeral [simp]: "(numeral w :: nat) < 2 ^ 53 \<Longrightarrow> is_double (numeral w)"
  by (simp add: is_double_def)

lemma round_half_even_error: "\<bar>of_int (round_half_even z) - z\<bar> \<le> 1 / 2"
proof -
  have "of_int \<lfloor>z\<rfloor> \<le> z" "z < of_int \<lfloor>z\<rfloor> + 1" by linarith+
  then show ?thesis by (auto simp: round_half_even_def Let_def)
qed

lemma binade:
  assumes "x \<noteq> 0"
  shows "2 powr of_int \<lfloor>log 2 \<bar>x\<bar>\<rfloor> \<le> \<bar>x\<bar>" "\<bar>x\<bar> < 2 powr (of_int \<lfloor>log 2 \<bar>x\<bar>\<rfloor> + 1)"
proof -
  have "0 < \<bar>x\<bar>" using assms by simp
  then have "\<lfloor>log 2 \<bar>x\<bar>\<rfloor> = \<lfloor>log 2 \<bar>x\<bar>\<rfloor> \<longleftrightarrow>
      2 powr of_int \<lfloor>log 2 \<bar>x\<bar>\<rfloor> \<le> \<bar>x\<bar> \<and> \<bar>x\<bar> < 2 powr (of_int \<lfloor>log 2 \<bar>x\<bar>\<rfloor> + 1)"
    using floor_log_eq_powr_iff [of "\<bar>x\<bar>" 2 "\<lfloor>log 2 \<bar>x\<bar>\<rfloor>"] by simp
  then show "2 powr of_int \<lfloor>log 2 \<bar>x\<bar>\<rfloor> \<le> \<bar>x\<bar>" "\<bar>x\<bar> < 2 powr (of_int \<lfloor>log 2 \<bar>x\<bar>\<rfloor> + 1)"
    by simp_all
qed

lemma ulp_le:
  assumes "x \<noteq> 0"
  shows "2 powr of_int (ulp_exponent x) \<le> \<bar>x\<bar> + 1"
proof (cases "- 1074 \<le> \<lfloor>log 2 \<bar>x\<bar>\<rfloor> - 52")
  case True
  then have "ulp_exponent x = \<lfloor>log 2 \<bar>x\<bar>\<rfloor> - 52" by (simp add: ulp_exponent_def)
  then have "2 powr of_int (ulp_exponent x) \<le> (2::real) powr of_int \<lfloor>log 2 \<bar>x\<bar>\<rfloor>"
    by (intro powr_mono) simp_all
  also have "\<dots> \<le> \<bar>x\<bar>" using assms by (rule binade)
  finally show ?thesis by simp
next
  case False
  then have "ulp_exponent x = - 1074" by (simp add: ulp_exponent_def)
  then have "2 powr of_int (ulp_exponent x) \<le> (2::real) powr 0"
    by (intro powr_mono) simp_all
  then show ?thesis by simp
qed

lemma grid_error:
  assumes "0 < u"
  shows "\<bar>of_int (round_half_even (x / u)) * u - x\<bar> \<le> u / 2"
proof -
  have "\<bar>of_int (round_half_even (x / u)) * u - x\<bar>
      = \<bar>of_int (round_half_even (x / u)) - x / u\<bar> * u"
  proof -
    have "of_int (round_half_even (x / u)) * u - x = (of_int (round_half_even (x / u)) - x / u) * u"
      using assms by (simp add: left_diff_distrib)
    then show ?thesis using assms by (simp add: abs_mult)
  qed
  also have "\<dots> \<le> 1 / 2 * u"
    using assms by (intro mult_right_mono round_half_even_error) simp
  finally show ?thesis by simp
qed

lemma one_le_threshold: "1 \<le> overflow_threshold"
  unfolding overflow_threshold_def by (rule one_le_power) simp

lemma round64_finite:
  assumes "3 / 2 * \<bar>x\<bar> + 1 / 2 < overflow_threshold"
  shows "\<exists>q. round64 x = Num q"
proof (cases "x = 0")
  case True
  then show ?thesis by simp
next
  case False
  let ?u = "2 powr of_int (ulp_exponent x) :: real"
  let ?y = "of_int (round_half_even (x / ?u)) * ?u"
  have "\<bar>?y - x\<bar> \<le> ?u / 2" by (rule grid_error) simp
  moreover have "?u \<le> \<bar>x\<bar> + 1" using False by (rule ulp_le)
  ultimately have "\<bar>?y\<bar> \<le> 3 / 2 * \<bar>x\<bar> + 1 / 2" by linarith
  with assms have "\<not> overflow_threshold \<le> \<bar>?y\<bar>" by linarith
  then show ?thesis using False unfolding round64_def Let_def by (simp only: if_False) blast
qed

lemma is_double_bound:
  assumes "is_double x"
  shows "\<bar>x\<bar> < overflow_threshold"
proof (cases "x = 0")
  case True
  then show ?thesis using one_le_threshold by simp
next
  case False
  let ?u = "2 powr of_int (ulp_exponent x) :: real"
  let ?y = "of_int (round_half_even (x / ?u)) * ?u"
  have r: "round64 x = (if overflow_threshold \<le> \<bar>?y\<bar> then signed_infinity x else Num ?y)"
    using False unfolding round64_def Let_def by (simp only: if_False)
  have s: "signed_infinity x \<noteq> Num x" using False by (simp add: signed_infinity_def)
  show ?thesis
  proof (cases "overflow_threshold \<le> \<bar>?y\<bar>")
    case True
    with r assms s show ?thesis unfolding is_double_def by simp
  next
    case False
    with r assms have "?y = x" unfolding is_double_def by simp
    with False show ?thesis by simp
  qed
qed

lemma round_half_even_bound:
  assumes "\<bar>z\<bar> < 2 ^ 53"
  shows "\<bar>round_half_even z\<bar> \<le> 2 ^ 53"
proof -
  have "\<bar>of_int (round_half_even z) - z\<bar> \<le> 1 / 2" by (rule round_half_even_error)
  with assms have "\<bar>(of_int (round_half_even z) :: real)\<bar> < 2 ^ 53 + 1" by linarith
  then have "(of_int \<bar>round_half_even z\<bar> :: real) < of_int (2 ^ 53 + 1)" by simp
  then have "\<bar>round_half_even z\<bar> < 2 ^ 53 + 1" by (simp only: of_int_less_iff)
  then show ?thesis by simp
qed

lemma round_half_even_lower:
  assumes "2 ^ 52 \<le> \<bar>z\<bar>"
  shows "2 ^ 52 \<le> \<bar>round_half_even z\<bar>"
proof -
  have "\<bar>of_int (round_half_even z) - z\<bar> \<le> 1 / 2" by (rule round_half_even_error)
  with assms have "2 ^ 52 - 1 < \<bar>(of_int (round_half_even z) :: real)\<bar>" by linarith
  then have "(of_int (2 ^ 52 - 1) :: real) < of_int \<bar>round_half_even z\<bar>" by simp
  then have "2 ^ 52 - 1 < \<bar>round_half_even z\<bar>" by (simp only: of_int_less_iff)
  then show ?thesis by simp
qed

lemma scaled_below_53:
  assumes "x \<noteq> 0"
  shows "\<bar>x / 2 powr of_int (ulp_exponent x)\<bar> < 2 ^ 53"
proof -
  let ?ex = "\<lfloor>log 2 \<bar>x\<bar>\<rfloor>"
  have "?ex - 52 \<le> ulp_exponent x" by (simp add: ulp_exponent_def)
  then have "(2::real) powr (of_int ?ex - 52) \<le> 2 powr of_int (ulp_exponent x)"
    by (intro powr_mono) simp_all
  moreover have "\<bar>x\<bar> < 2 powr (of_int ?ex + 1)" using assms by (rule binade)
  moreover have "(2::real) powr (of_int ?ex + 1) = 2 ^ 53 * 2 powr (of_int ?ex - 52)"
  proof -
    have "(of_int ?ex + 1 :: real) = 53 + (of_int ?ex - 52)" by simp
    then have "(2::real) powr (of_int ?ex + 1) = 2 powr 53 * 2 powr (of_int ?ex - 52)"
      by (simp only: powr_add)
    then show ?thesis by (simp add: powr_numeral)
  qed
  ultimately have "\<bar>x\<bar> < 2 ^ 53 * 2 powr of_int (ulp_exponent x)"
    by (smt (verit) mult_left_mono zero_le_power)
  then show ?thesis by (simp add: abs_divide pos_divide_less_eq)
qed

lemma rescale:
  assumes "d \<le> e"
  shows "(of_int k * 2 powr of_int e :: real) = of_int (k * 2 ^ nat (e - d)) * 2 powr of_int d"
proof -
  have "(of_int k * 2 powr of_int e) / 2 powr of_int d = (of_int (k * 2 ^ nat (e - d)) :: real)"
    using assms by (rule scaled_is_int)
  then show ?thesis by (simp add: field_simps)
qed

lemma mantissa_bound:
  assumes "\<bar>of_int m * 2 powr 971\<bar> < overflow_threshold"
  shows "\<bar>m\<bar> < 2 ^ 53"
proof -
  define B :: real where "B = 2 powr 971"
  have B: "0 < B" unfolding B_def by simp
  have "\<bar>of_int m * B\<bar> < 2 ^ 53 * B"
    using assms pow53_powr971 unfolding B_def by simp
  then have "of_int \<bar>m\<bar> * B < 2 ^ 53 * B" using B by (simp add: abs_mult)
  then have "(of_int \<bar>m\<bar> :: real) < 2 ^ 53" using B by (simp only: mult_less_cancel_right_pos)
  then have "(of_int \<bar>m\<bar> :: real) < of_int (2 ^ 53)" by simp
  then show ?thesis by (simp only: of_int_less_iff)
qed

lemma round64_grid:
  assumes k: "\<bar>k\<bar> \<le> 2 ^ 53" and e: "- 1074 \<le> e"
    and b: "\<bar>of_int k * 2 powr of_int e\<bar> < overflow_threshold"
  shows "round64 (of_int k * 2 powr of_int e) = Num (of_int k * 2 powr of_int e)"
proof (cases "971 \<le> e")
  case True
  let ?m = "k * 2 ^ nat (e - 971)"
  have r: "(of_int k * 2 powr of_int e :: real) = of_int ?m * 2 powr of_int 971"
    using True by (rule rescale)
  have "\<bar>of_int ?m * 2 powr 971 :: real\<bar> < overflow_threshold" using b unfolding r by simp
  then have "\<bar>?m\<bar> < 2 ^ 53" by (rule mantissa_bound)
  then have "round64 (of_int ?m * 2 powr of_int 971) = Num (of_int ?m * 2 powr of_int 971)"
    by (rule round64_exact) simp_all
  then show ?thesis by (simp only: r)
next
  case False
  show ?thesis
  proof (cases "\<bar>k\<bar> < 2 ^ 53")
    case True
    then show ?thesis using e False by (intro round64_exact) simp_all
  next
    case big: False
    with k have "\<bar>k\<bar> = 2 ^ 53" by simp
    then have "k = 2 ^ 52 * 2 \<or> k = - (2 ^ 52) * 2" by (simp add: abs_if split: if_splits)
    then obtain m :: int where m: "k = m * 2 ^ nat ((e + 1) - e)" and mb: "\<bar>m\<bar> < 2 ^ 53"
      by (elim disjE) (rule that [of "2 ^ 52"], simp, simp, rule that [of "- (2 ^ 52)"], simp, simp)
    have "(of_int m * 2 powr of_int (e + 1) :: real) = of_int (m * 2 ^ nat ((e + 1) - e)) * 2 powr of_int e"
      by (rule rescale) simp
    then have r: "(of_int k * 2 powr of_int e :: real) = of_int m * 2 powr of_int (e + 1)"
      by (simp only: m)
    have "round64 (of_int m * 2 powr of_int (e + 1)) = Num (of_int m * 2 powr of_int (e + 1))"
      using mb e False by (intro round64_exact) simp_all
    then show ?thesis by (simp only: r)
  qed
qed

lemma round64_is_double:
  assumes "round64 x = Num q"
  shows "is_double q"
proof (cases "x = 0")
  case True
  with assms show ?thesis by (simp add: is_double_def)
next
  case False
  define ue where "ue = ulp_exponent x"
  define k where "k = round_half_even (x / 2 powr of_int ue)"
  let ?y = "of_int k * 2 powr of_int ue :: real"
  have r: "round64 x = (if overflow_threshold \<le> \<bar>?y\<bar> then signed_infinity x else Num ?y)"
    using False unfolding round64_def Let_def k_def ue_def by (simp only: if_False)
  have s: "signed_infinity x \<noteq> Num q" using False by (simp add: signed_infinity_def)
  from r assms s have b: "\<bar>?y\<bar> < overflow_threshold" and q: "q = ?y"
    by (auto split: if_splits)
  have "\<bar>x / 2 powr of_int ue\<bar> < 2 ^ 53" unfolding ue_def using False by (rule scaled_below_53)
  then have "\<bar>k\<bar> \<le> 2 ^ 53" unfolding k_def by (rule round_half_even_bound)
  moreover have "- 1074 \<le> ue" by (simp add: ue_def ulp_exponent_def)
  ultimately have "round64 ?y = Num ?y" using b by (rule round64_grid)
  then show ?thesis by (simp only: is_double_def q)
qed

lemma Num_minus: "Num a - Num b = round64 (a - b)"
  by (simp add: minus_number_def)

lemma round64_div_1: "round64 z / Num 1 = round64 z"
proof (cases "round64 z")
  case (Num q)
  then have "is_double q" by (rule round64_is_double)
  with Num show ?thesis by (simp add: is_double_def)
qed simp_all

lemma one_times_double: "is_double x \<Longrightarrow> Num 1 * Num x = Num x"
  by (simp add: is_double_def)

lemma double_times_one: "is_double x \<Longrightarrow> Num x * Num 1 = Num x"
  by (simp add: is_double_def)

lemma nearest_pow [simp]:
  "0 \<le> b \<Longrightarrow> pow_value nearest_double_library b e = round64 (b powr e)"
  by (simp add: nearest_double_library_def)

lemma nearest_exp [simp]: "exp_value nearest_double_library x = round64 (exp x)"
  by (simp add: nearest_double_library_def)

section \<open>The yearly loop\<close>

lemma yearly_loop_stop:
  "time params = Num (real t) \<Longrightarrow> t < y \<Longrightarrow> yearly_loop lib tz params y rows = Some (Inr rows)"
  by (subst yearly_loop.simps) simp

lemma yearly_loop_step:
  "time params = Num (real t) \<Longrightarrow> y \<le> t \<Longrightarrow>
   yearly_loop lib tz params y rows =
     (case breakdown_row lib tz params y rows of
        Inl e \<Rightarrow> Some (Inl e)
      | Inr row \<Rightarrow> yearly_loop lib tz params (Suc y) (rows @ [row]))"
  by (subst yearly_loop.simps) (simp split: sum.splits)

lemma array_get_nat:
  "array_get xs (int k) = (if k < length xs then Some (xs ! k) else None)"
  by (simp add: array_get_def)

lemma previousAmount_row:
  "1 \<le> y \<Longrightarrow> length rows = y - 1 \<Longrightarrow>
   previousAmount params y rows =
     Inr (if y = 1 then principal params else amount (rows ! (y - 2)))"
proof (cases "y = 1")
  case True
  then show ?thesis by (simp add: previousAmount_def)
next
  case False
  assume a: "1 \<le> y" "length rows = y - 1"
  with False have y2: "2 \<le> y" by simp
  then have "int y - 2 = int (y - 2)" by simp
  then have "array_get rows (int y - 2) = Some (rows ! (y - 2))"
    using y2 a by (simp only: array_get_nat) simp
  then show ?thesis using False by (simp add: previousAmount_def)
qed

lemma toISOString_error: "toISOString tz d = Inl e \<Longrightarrow> e = RangeError"
  by (auto simp: toISOString_def Let_def split: Date.splits)

lemma yearDate_error:
  "yearDate tz params yr = Inl e \<Longrightarrow> e = RangeError \<and> startDate params \<noteq> None"
  by (auto simp: yearDate_def split: option.splits sum.splits dest: toISOString_error)


lemma yearly_loop_rows:
  assumes t: "time params = Num (real t)"
  shows "1 \<le> y \<Longrightarrow> y \<le> Suc t \<Longrightarrow> length rows = y - 1 \<Longrightarrow>
    \<exists>res. yearly_loop lib tz params y rows = Some res \<and>
      (\<forall>e. res = Inl e \<longrightarrow> e = RangeError \<and>
         (\<exists>k. y \<le> k \<and> k \<le> t \<and> yearDate tz params k = Inl RangeError)) \<and>
      (\<forall>out. res = Inr out \<longrightarrow> length out = t \<and> take (y - 1) out = rows \<and>
         (\<forall>i. y - 1 \<le> i \<and> i < t \<longrightarrow>
            year (out ! i) = Num (real (Suc i)) \<and>
            amount (out ! i) = yearAmount lib params (Num (real (Suc i))) \<and>
            interestEarned (out ! i) =
              amount (out ! i) - (if i = 0 then principal params else amount (out ! (i - 1))) \<and>
            yearDate tz params (Suc i) = Inr (date (out ! i))))"
proof (induction n \<equiv> "Suc t - y" arbitrary: y rows)
  case 0
  then have y: "y = Suc t" by simp
  have "yearly_loop lib tz params y rows = Some (Inr rows)"
    using yearly_loop_stop [OF t, of y lib tz rows] y by simp
  with 0 y show ?case by auto
next
  case (Suc n)
  then have yt: "y \<le> t" by simp
  let ?prev = "if y = 1 then principal params else amount (rows ! (y - 2))"
  note step = yearly_loop_step [OF t yt, of lib tz rows]
  have prev: "previousAmount params y rows = Inr ?prev"
    using Suc.prems by (simp add: previousAmount_row)
  show ?case
  proof (cases "yearDate tz params y")
    case (Inl e)
    then have "breakdown_row lib tz params y rows = Inl e"
      by (simp add: breakdown_row_def prev)
    with step have "yearly_loop lib tz params y rows = Some (Inl e)" by simp
    with yearDate_error [OF Inl] Inl yt show ?thesis by auto
  next
    case (Inr d)
    define row where "row = \<lparr>year = Num (real y), amount = yearAmount lib params (Num (real y)),
      interestEarned = yearAmount lib params (Num (real y)) - ?prev, date = d\<rparr>"
    have "breakdown_row lib tz params y rows = Inr row"
      by (simp add: breakdown_row_def prev Inr row_def)
    with step have loop: "yearly_loop lib tz params y rows =
        yearly_loop lib tz params (Suc y) (rows @ [row])" by simp
    have "n = Suc t - Suc y" "1 \<le> Suc y" "Suc y \<le> Suc t" "length (rows @ [row]) = Suc y - 1"
      using Suc.hyps(2) Suc.prems yt by simp_all
    from Suc.hyps(1) [OF this] obtain res where
      res: "yearly_loop lib tz params (Suc y) (rows @ [row]) = Some res"
      and err: "\<forall>e. res = Inl e \<longrightarrow> e = RangeError \<and>
         (\<exists>k. Suc y \<le> k \<and> k \<le> t \<and> yearDate tz params k = Inl RangeError)"
      and out: "\<forall>out. res = Inr out \<longrightarrow> length out = t \<and> take (Suc y - 1) out = rows @ [row] \<and>
         (\<forall>i. Suc y - 1 \<le> i \<and> i < t \<longrightarrow>
            year (out ! i) = Num (real (Suc i)) \<and>
            amount (out ! i) = yearAmount lib params (Num (real (Suc i))) \<and>
            interestEarned (out ! i) =
              amount (out ! i) - (if i = 0 then principal params else amount (out ! (i - 1))) \<and>
            yearDate tz params (Suc i) = Inr (date (out ! i)))"
      by blast
    have "length out = t \<and> take (y - 1) out = rows \<and>
         (\<forall>i. y - 1 \<le> i \<and> i < t \<longrightarrow>
            year (out ! i) = Num (real (Suc i)) \<and>
            amount (out ! i) = yearAmount lib params (Num (real (Suc i))) \<and>
            interestEarned (out ! i) =
              amount (out ! i) - (if i = 0 then principal params else amount (out ! (i - 1))) \<and>
            yearDate tz params (Suc i) = Inr (date (out ! i)))"
      if r: "res = Inr out" for out
    proof -
      from out r have len: "length out = t" and tk: "take y out = rows @ [row]"
        and later: "\<And>i. y \<le> i \<Longrightarrow> i < t \<Longrightarrow>
            year (out ! i) = Num (real (Suc i)) \<and>
            amount (out ! i) = yearAmount lib params (Num (real (Suc i))) \<and>
            interestEarned (out ! i) =
              amount (out ! i) - (if i = 0 then principal params else amount (out ! (i - 1))) \<and>
            yearDate tz params (Suc i) = Inr (date (out ! i))"
        by simp_all
      have nth: "out ! i = (rows @ [row]) ! i" if "i < y" for i
        using that tk by (metis nth_take)
      have lr: "length rows = y - 1" by (rule Suc.prems)
      have y1: "1 \<le> y" by (rule Suc.prems)
      have at: "out ! (y - 1) = row"
        using nth [of "y - 1"] lr y1 by (simp add: nth_append)
      have before: "out ! (y - 2) = rows ! (y - 2)" if "2 \<le> y"
        using nth [of "y - 2"] lr that by (simp add: nth_append)
      have "take (y - 1) out = take (y - 1) (take y out)" by simp
      also have "\<dots> = rows" using tk lr by simp
      finally have tk': "take (y - 1) out = rows" .
      have here: "year (out ! i) = Num (real (Suc i)) \<and>
            amount (out ! i) = yearAmount lib params (Num (real (Suc i))) \<and>
            interestEarned (out ! i) =
              amount (out ! i) - (if i = 0 then principal params else amount (out ! (i - 1))) \<and>
            yearDate tz params (Suc i) = Inr (date (out ! i))"
        if i: "i = y - 1" for i
      proof -
        have yi: "y = Suc i" using i y1 by simp
        have "out ! i = row" using at i by simp
        moreover have "i \<noteq> 0 \<Longrightarrow> out ! (i - 1) = rows ! (y - 2)"
          using before yi by simp
        ultimately show ?thesis using Inr yi by (simp add: row_def)
      qed
      have "\<forall>i. y - 1 \<le> i \<and> i < t \<longrightarrow>
            year (out ! i) = Num (real (Suc i)) \<and>
            amount (out ! i) = yearAmount lib params (Num (real (Suc i))) \<and>
            interestEarned (out ! i) =
              amount (out ! i) - (if i = 0 then principal params else amount (out ! (i - 1))) \<and>
            yearDate tz params (Suc i) = Inr (date (out ! i))"
      proof (intro allI impI)
        fix i assume "y - 1 \<le> i \<and> i < t"
        then consider "i = y - 1" | "y \<le> i" "i < t" by linarith
        then show "year (out ! i) = Num (real (Suc i)) \<and>
            amount (out ! i) = yearAmount lib params (Num (real (Suc i))) \<and>
            interestEarned (out ! i) =
              amount (out ! i) - (if i = 0 then principal params else amount (out ! (i - 1))) \<and>
            yearDate tz params (Suc i) = Inr (date (out ! i))"
          using here later by cases blast+
      qed
      with len tk' show ?thesis by blast
    qed
    moreover have "e = RangeError \<and>
         (\<exists>k. y \<le> k \<and> k \<le> t \<and> yearDate tz params k = Inl RangeError)"
      if "res = Inl e" for e
    proof -
      from err that obtain k where "e = RangeError" "Suc y \<le> k" "k \<le> t"
        "yearDate tz params k = Inl RangeError" by blast
      then show ?thesis using Suc_leD by blast
    qed
    ultimately show ?thesis using loop res by simp
  qed
qed

lemma getFrequencyValue_periods:
  "freq \<noteq> continuously \<Longrightarrow> getFrequencyValue freq = Num (real (periods_per_year freq))"
  by (cases freq) simp_all

lemma periods_pos: "freq \<noteq> continuously \<Longrightarrow> 0 < periods_per_year freq"
  by (cases freq) simp_all

lemma yearAmount_spec:
  "0 < y \<Longrightarrow>
   yearAmount lib params (Num (real y)) =
     amount_at_year lib (principal params) (rate params) (frequency params) y"
  by (simp add: yearAmount_def amount_at_year_def getFrequencyValue_periods)

lemma compute_result:
  assumes t: "time params = Num (real t)"
  shows "\<exists>res. calculateCompoundInterest lib tz params = Some res \<and>
      (\<forall>e. res = Inl e \<longrightarrow> e = RangeError \<and>
         (\<exists>k. 1 \<le> k \<and> k \<le> t \<and> yearDate tz params k = Inl RangeError)) \<and>
      (\<forall>r. res = Inr r \<longrightarrow>
         finalAmount r = yearAmount lib params (Num (real t)) \<and>
         totalInterest r = finalAmount r - principal params \<and>
         formula r = getFormula (frequency params) \<and>
         length (yearlyBreakdown r) = t \<and>
         (\<forall>i. i < t \<longrightarrow>
            year (yearlyBreakdown r ! i) = Num (real (Suc i)) \<and>
            amount (yearlyBreakdown r ! i) = yearAmount lib params (Num (real (Suc i))) \<and>
            interestEarned (yearlyBreakdown r ! i) =
              amount (yearlyBreakdown r ! i) -
                (if i = 0 then principal params else amount (yearlyBreakdown r ! (i - 1))) \<and>
            yearDate tz params (Suc i) = Inr (date (yearlyBreakdown r ! i))))"
proof -
  from yearly_loop_rows [OF t, of 1 "[]" lib tz] obtain res where
    loop: "yearly_loop lib tz params 1 [] = Some res"
    and err: "\<forall>e. res = Inl e \<longrightarrow> e = RangeError \<and>
         (\<exists>k. 1 \<le> k \<and> k \<le> t \<and> yearDate tz params k = Inl RangeError)"
    and out: "\<forall>out. res = Inr out \<longrightarrow> length out = t \<and>
         (\<forall>i. i < t \<longrightarrow>
            year (out ! i) = Num (real (Suc i)) \<and>
            amount (out ! i) = yearAmount lib params (Num (real (Suc i))) \<and>
            interestEarned (out ! i) =
              amount (out ! i) - (if i = 0 then principal params else amount (out ! (i - 1))) \<and>
            yearDate tz params (Suc i) = Inr (date (out ! i)))"
    by auto
  show ?thesis
  proof (cases res)
    case (Inl e)
    with loop have "calculateCompoundInterest lib tz params = Some (Inl e)"
      by (simp add: calculateCompoundInterest_def Let_def)
    with err Inl show ?thesis by simp
  next
    case (Inr rows)
    with loop have "calculateCompoundInterest lib tz params =
      Some (Inr \<lparr>finalAmount = yearAmount lib params (Num (real t)),
        totalInterest = yearAmount lib params (Num (real t)) - principal params,
        yearlyBreakdown = rows, formula = getFormula (frequency params)\<rparr>)"
      by (simp add: calculateCompoundInterest_def yearAmount_def Let_def t)
    with out Inr show ?thesis by simp
  qed
qed

lemma compute_error_startDate:
  "yearDate tz params k = Inl RangeError \<Longrightarrow>
   \<exists>d. startDate params = Some d \<and>
       setFullYear tz (getFullYear d + Num (real k)) d = Invalid_Date"
  by (auto simp: yearDate_def toISOString_def Let_def split: option.splits sum.splits Date.splits)

text \<open>
  The error is real: with a start date that is not a date, \<^verbatim>\<open>toISOString\<close> raises in
  the first year, on every library.
\<close>

lemma invalid_start_date:
  "calculateCompoundInterest lib (\<lambda>_. 0)
     \<lparr>principal = Num 1000, rate = Num 5, time = Num 1, frequency = annually,
      startDate = Some Invalid_Date\<rparr> = Some (Inl RangeError)"
  by (simp add: calculateCompoundInterest_def yearly_loop.simps breakdown_row_def Let_def
      previousAmount_def yearDate_def toISOString_def setFullYear_def getFullYear_def)

text \<open>
  With an infinite \<open>time\<close> (and no start date to raise on) the loop has no last year:
  the call never returns.
\<close>

lemma yearly_loop_unbounded:
  assumes "yearly_loop lib tz params yr rows = Some res"
  shows "\<not> (time params = Infinity \<and> startDate params = None \<and> 1 \<le> yr \<and> length rows = yr - 1)"
  using assms
proof (induction lib tz params yr rows res
    rule: yearly_loop.raw_induct [rotated 1, consumes 1, case_names step])
  case (step loop lib tz params yr rows res)
  show ?case
  proof
    assume a: "time params = Infinity \<and> startDate params = None \<and> 1 \<le> yr \<and> length rows = yr - 1"
    then have le: "Num (real yr) \<le> time params" by simp
    have "yearDate tz params yr = Inr None" using a by (simp add: yearDate_def)
    moreover have "previousAmount params yr rows =
        Inr (if yr = 1 then principal params else amount (rows ! (yr - 2)))"
      using a previousAmount_row [of yr rows params] by simp
    ultimately obtain row where row: "breakdown_row lib tz params yr rows = Inr row"
      by (simp add: breakdown_row_def)
    with step.hyps le have l: "loop lib tz params (yr + 1) (rows @ [row]) = Some res" by simp
    have "\<not> (time params = Infinity \<and> startDate params = None \<and> 1 \<le> yr + 1 \<and>
            length (rows @ [row]) = yr + 1 - 1)"
      by (rule step.IH [OF l])
    then show False using a by simp
  qed
qed

lemma infinite_time_never_returns:
  assumes "time params = Infinity" "startDate params = None"
  shows "calculateCompoundInterest lib tz params = None"
proof -
  have "yearly_loop lib tz params 1 [] = None"
  proof (cases "yearly_loop lib tz params 1 []")
    case (Some res)
    from yearly_loop_unbounded [OF this] assms show ?thesis by simp
  qed simp
  then show ?thesis by (simp add: calculateCompoundInterest_def Let_def)
qed

section \<open>The final amount\<close>

text \<open>
  Claim C1. For valid parameters (a positive principal \<open>P\<close>, a positive rate \<open>R\<close>, a
  whole number \<open>t \<ge> 1\<close> of years) and a discrete frequency, the computation ends, and
  the result it returns has \<open>finalAmount = P \<times> (1 + (R/100)/n)^(n \<times> t)\<close> evaluated in
  doubles with a call of the library's power function, where \<open>n\<close> is the periods per
  year of the frequency (1, 2, 4, 12, 52, 365). For annual compounding and a \<open>t\<close> that a
  double holds this is \<open>P \<times> (1 + R/100)^t\<close>, the same double: dividing by 1 and
  multiplying by 1 round nothing. The only call that returns no result is one whose
  start date, moved by one of the years 1 to \<open>t\<close>, is not a date that can be written:
  \<^verbatim>\<open>toISOString\<close> raises \<open>RangeError\<close> there. Without a start date every call returns.
\<close>

theorem finalAmount_discrete:
  assumes "0 < P" "0 < R" "1 \<le> t" "freq \<noteq> continuously"
  shows "\<exists>res. calculateCompoundInterest lib tz
            \<lparr>principal = Num P, rate = Num R, time = Num (real t), frequency = freq,
             startDate = sd\<rparr> = Some res \<and>
          (\<forall>e. res = Inl e \<longrightarrow> e = RangeError \<and>
             (\<exists>d k. sd = Some d \<and> 1 \<le> k \<and> k \<le> t \<and>
                setFullYear tz (getFullYear d + Num (real k)) d = Invalid_Date)) \<and>
          (\<forall>r. res = Inr r \<longrightarrow>
             finalAmount r =
               Num P * Math_pow lib (Num 1 + (Num R / Num 100) / Num (real (periods_per_year freq)))
                         (Num (real (periods_per_year freq)) * Num (real t)) \<and>
             (freq = annually \<and> is_double (real t) \<longrightarrow>
                finalAmount r = Num P * Math_pow lib (Num 1 + Num R / Num 100) (Num (real t))))"
proof -
  let ?p = "\<lparr>principal = Num P, rate = Num R, time = Num (real t), frequency = freq,
             startDate = sd\<rparr>"
  have am: "yearAmount lib ?p (Num (real t)) = amount_at_year lib (Num P) (Num R) freq t"
    using yearAmount_spec [of t lib ?p] assms by simp
  from compute_result [of ?p t lib tz] obtain res where
    res: "calculateCompoundInterest lib tz ?p = Some res"
    and err: "\<forall>e. res = Inl e \<longrightarrow> e = RangeError \<and>
         (\<exists>k. 1 \<le> k \<and> k \<le> t \<and> yearDate tz ?p k = Inl RangeError)"
    and fin: "\<forall>r. res = Inr r \<longrightarrow> finalAmount r = yearAmount lib ?p (Num (real t))"
    by auto
  have "e = RangeError \<and> (\<exists>d k. sd = Some d \<and> 1 \<le> k \<and> k \<le> t \<and>
      setFullYear tz (getFullYear d + Num (real k)) d = Invalid_Date)" if "res = Inl e" for e
    using err that compute_error_startDate [of tz ?p] by fastforce
  moreover have "finalAmount r =
               Num P * Math_pow lib (Num 1 + (Num R / Num 100) / Num (real (periods_per_year freq)))
                         (Num (real (periods_per_year freq)) * Num (real t)) \<and>
             (freq = annually \<and> is_double (real t) \<longrightarrow>
                finalAmount r = Num P * Math_pow lib (Num 1 + Num R / Num 100) (Num (real t)))"
    if r: "res = Inr r" for r
  proof -
    have g: "finalAmount r =
               Num P * Math_pow lib (Num 1 + (Num R / Num 100) / Num (real (periods_per_year freq)))
                         (Num (real (periods_per_year freq)) * Num (real t))"
      using fin r am assms(3,4) by (simp add: amount_at_year_def)
    have "finalAmount r = Num P * Math_pow lib (Num 1 + Num R / Num 100) (Num (real t))"
      if a: "freq = annually" and d: "is_double (real t)"
    proof -
      have "(Num R / Num 100) / Num 1 = Num R / Num 100"
        using round64_div_1 [of "R / 100"] by simp
      moreover have "Num 1 * Num (real t) = Num (real t)" using d by (rule one_times_double)
      ultimately show ?thesis using g a by simp
    qed
    with g show ?thesis by blast
  qed
  ultimately show ?thesis using res by blast
qed

theorem finalAmount_discrete_witness:
  "(0::real) < 1000 \<and> (0::real) < 100 \<and> (1::nat) \<le> 3 \<and> annually \<noteq> continuously \<and>
   is_double (real 3) \<and>
   (\<exists>r. calculateCompoundInterest nearest_double_library (\<lambda>_. 0)
            \<lparr>principal = Num 1000, rate = Num 100, time = Num 3, frequency = annually,
             startDate = None\<rparr> = Some (Inr r) \<and>
        finalAmount r = Num 1000 * Math_pow nearest_double_library (Num 2) (Num 3) \<and>
        finalAmount r = Num 8000)"
proof -
  have h: "(0::real) < 1000" "(0::real) < 100" "(1::nat) \<le> 3" "annually \<noteq> continuously"
    by simp_all
  have d: "is_double (real 3)" by simp
  from finalAmount_discrete [OF h, of nearest_double_library "\<lambda>_. 0" None] d obtain res where
    "calculateCompoundInterest nearest_double_library (\<lambda>_. 0)
            \<lparr>principal = Num 1000, rate = Num 100, time = Num 3, frequency = annually,
             startDate = None\<rparr> = Some res"
    "\<forall>e. res \<noteq> Inl e"
    "\<forall>r. res = Inr r \<longrightarrow> finalAmount r = Num 8000"
    by auto
  then show ?thesis using d by (cases res) auto
qed

text \<open>
  Claim C2. For valid parameters and continuous compounding the result has
  \<open>finalAmount = P \<times> e^((R/100) \<times> t)\<close>, evaluated in doubles with a call of the library's
  exponential, and the formula label \<^verbatim>\<open>A = P \<times> e^(rt)\<close>; for every discrete frequency
  the label is \<^verbatim>\<open>A = P(1 + r/n)^(nt)\<close>.
\<close>

theorem finalAmount_continuous_and_formula:
  assumes "0 < P" "0 < R" "1 \<le> t"
  shows "\<exists>res. calculateCompoundInterest lib tz
            \<lparr>principal = Num P, rate = Num R, time = Num (real t), frequency = freq,
             startDate = sd\<rparr> = Some res \<and>
          (\<forall>e. res = Inl e \<longrightarrow> e = RangeError \<and>
             (\<exists>d k. sd = Some d \<and> 1 \<le> k \<and> k \<le> t \<and>
                setFullYear tz (getFullYear d + Num (real k)) d = Invalid_Date)) \<and>
          (\<forall>r. res = Inr r \<longrightarrow>
             (freq = continuously \<longrightarrow>
                finalAmount r = Num P * Math_exp lib ((Num R / Num 100) * Num (real t)) \<and>
                formula r = ''A = P '' @ [CHR 0xD7] @ '' e^(rt)'') \<and>
             (freq \<noteq> continuously \<longrightarrow> formula r = ''A = P(1 + r/n)^(nt)''))"
proof -
  let ?p = "\<lparr>principal = Num P, rate = Num R, time = Num (real t), frequency = freq,
             startDate = sd\<rparr>"
  have am: "yearAmount lib ?p (Num (real t)) = amount_at_year lib (Num P) (Num R) freq t"
    using yearAmount_spec [of t lib ?p] assms by simp
  from compute_result [of ?p t lib tz] obtain res where
    res: "calculateCompoundInterest lib tz ?p = Some res"
    and err: "\<forall>e. res = Inl e \<longrightarrow> e = RangeError \<and>
         (\<exists>k. 1 \<le> k \<and> k \<le> t \<and> yearDate tz ?p k = Inl RangeError)"
    and fin: "\<forall>r. res = Inr r \<longrightarrow> finalAmount r = yearAmount lib ?p (Num (real t)) \<and>
         formula r = getFormula (frequency ?p)"
    by auto
  have "e = RangeError \<and> (\<exists>d k. sd = Some d \<and> 1 \<le> k \<and> k \<le> t \<and>
      setFullYear tz (getFullYear d + Num (real k)) d = Invalid_Date)" if "res = Inl e" for e
    using err that compute_error_startDate [of tz ?p] by fastforce
  moreover have "(freq = continuously \<longrightarrow>
                finalAmount r = Num P * Math_exp lib ((Num R / Num 100) * Num (real t)) \<and>
                formula r = ''A = P '' @ [CHR 0xD7] @ '' e^(rt)'') \<and>
             (freq \<noteq> continuously \<longrightarrow> formula r = ''A = P(1 + r/n)^(nt)'')"
    if "res = Inr r" for r
    using fin that am assms(3) by (simp add: amount_at_year_def getFormula_def)
  ultimately show ?thesis using res by blast
qed

theorem finalAmount_continuous_and_formula_witness:
  "(0::real) < 1000 \<and> (0::real) < 100 \<and> (1::nat) \<le> 1 \<and>
   (\<exists>r. calculateCompoundInterest nearest_double_library (\<lambda>_. 0)
            \<lparr>principal = Num 1000, rate = Num 100, time = Num 1, frequency = continuously,
             startDate = None\<rparr> = Some (Inr r) \<and>
        finalAmount r = Num 1000 * Math_exp nearest_double_library (Num 1) \<and>
        finalAmount r = Num 1000 * round64 (exp 1) \<and>
        formula r = ''A = P '' @ [CHR 0xD7] @ '' e^(rt)'')"
proof -
  have h: "(0::real) < 1000" "(0::real) < 100" "(1::nat) \<le> 1" by simp_all
  from finalAmount_continuous_and_formula
         [OF h, of nearest_double_library "\<lambda>_. 0" continuously None] obtain res where
    "calculateCompoundInterest nearest_double_library (\<lambda>_. 0)
            \<lparr>principal = Num 1000, rate = Num 100, time = Num 1, frequency = continuously,
             startDate = None\<rparr> = Some res"
    "\<forall>e. res \<noteq> Inl e"
    "\<forall>r. res = Inr r \<longrightarrow> finalAmount r = Num 1000 * round64 (exp 1) \<and>
        formula r = ''A = P '' @ [CHR 0xD7] @ '' e^(rt)''"
    by auto
  then show ?thesis by (cases res) auto
qed

section \<open>The yearly breakdown\<close>

text \<open>
  Claim C3. For valid parameters the breakdown of the result has exactly \<open>t\<close> rows, and
  the row at index \<open>i\<close> carries the year \<open>i + 1\<close>.
\<close>

theorem yearlyBreakdown_length_and_years:
  assumes "0 < P" "0 < R" "1 \<le> t"
  shows "\<exists>res. calculateCompoundInterest lib tz
            \<lparr>principal = Num P, rate = Num R, time = Num (real t), frequency = freq,
             startDate = sd\<rparr> = Some res \<and>
          (\<forall>e. res = Inl e \<longrightarrow> e = RangeError \<and>
             (\<exists>d k. sd = Some d \<and> 1 \<le> k \<and> k \<le> t \<and>
                setFullYear tz (getFullYear d + Num (real k)) d = Invalid_Date)) \<and>
          (\<forall>r. res = Inr r \<longrightarrow>
             length (yearlyBreakdown r) = t \<and>
             (\<forall>i. i < t \<longrightarrow> year (yearlyBreakdown r ! i) = Num (real (i + 1))))"
proof -
  let ?p = "\<lparr>principal = Num P, rate = Num R, time = Num (real t), frequency = freq,
             startDate = sd\<rparr>"
  from compute_result [of ?p t lib tz] obtain res where
    res: "calculateCompoundInterest lib tz ?p = Some res"
    and err: "\<forall>e. res = Inl e \<longrightarrow> e = RangeError \<and>
         (\<exists>k. 1 \<le> k \<and> k \<le> t \<and> yearDate tz ?p k = Inl RangeError)"
    and rows: "\<forall>r. res = Inr r \<longrightarrow> length (yearlyBreakdown r) = t \<and>
         (\<forall>i. i < t \<longrightarrow> year (yearlyBreakdown r ! i) = Num (real (Suc i)))"
    by auto
  have "e = RangeError \<and> (\<exists>d k. sd = Some d \<and> 1 \<le> k \<and> k \<le> t \<and>
      setFullYear tz (getFullYear d + Num (real k)) d = Invalid_Date)" if "res = Inl e" for e
    using err that compute_error_startDate [of tz ?p] by fastforce
  moreover have "length (yearlyBreakdown r) = t \<and>
             (\<forall>i. i < t \<longrightarrow> year (yearlyBreakdown r ! i) = Num (real (i + 1)))"
    if "res = Inr r" for r
    using rows that by simp
  ultimately show ?thesis using res by blast
qed

theorem yearlyBreakdown_length_and_years_witness:
  "(0::real) < 10000 \<and> (0::real) < 5 \<and> (1::nat) \<le> 3 \<and>
   (\<exists>r. calculateCompoundInterest nearest_double_library (\<lambda>_. 0)
            \<lparr>principal = Num 10000, rate = Num 5, time = Num 3, frequency = monthly,
             startDate = None\<rparr> = Some (Inr r) \<and>
        length (yearlyBreakdown r) = 3 \<and>
        year (yearlyBreakdown r ! 0) = Num 1 \<and> year (yearlyBreakdown r ! 1) = Num 2 \<and>
        year (yearlyBreakdown r ! 2) = Num 3)"
proof -
  have h: "(0::real) < 10000" "(0::real) < 5" "(1::nat) \<le> 3" by simp_all
  from yearlyBreakdown_length_and_years [OF h, of nearest_double_library "\<lambda>_. 0" monthly None]
  obtain res where
    "calculateCompoundInterest nearest_double_library (\<lambda>_. 0)
            \<lparr>principal = Num 10000, rate = Num 5, time = Num 3, frequency = monthly,
             startDate = None\<rparr> = Some res"
    "\<forall>e. res \<noteq> Inl e"
    "\<forall>r. res = Inr r \<longrightarrow> length (yearlyBreakdown r) = 3 \<and>
       (\<forall>i. i < 3 \<longrightarrow> year (yearlyBreakdown r ! i) = Num (real (i + 1)))"
    by auto
  then show ?thesis by (cases res) auto
qed

text \<open>
  Claim C4. For valid parameters \<open>totalInterest\<close> is the double \<open>finalAmount - principal\<close>,
  and the row of year \<open>y\<close> has the amount of the specification at year \<open>y\<close> and, as
  interest earned, the double difference of that amount and the amount at year \<open>y - 1\<close>,
  where the amount at year 0 is the principal; so the first row's interest is its amount
  minus the principal. The code reads the earlier amount from the row pushed before;
  that row holds the amount of the specification.
\<close>

theorem interest_is_difference_of_amounts:
  assumes "0 < P" "0 < R" "1 \<le> t"
  shows "\<exists>res. calculateCompoundInterest lib tz
            \<lparr>principal = Num P, rate = Num R, time = Num (real t), frequency = freq,
             startDate = sd\<rparr> = Some res \<and>
          (\<forall>e. res = Inl e \<longrightarrow> e = RangeError \<and>
             (\<exists>d k. sd = Some d \<and> 1 \<le> k \<and> k \<le> t \<and>
                setFullYear tz (getFullYear d + Num (real k)) d = Invalid_Date)) \<and>
          (\<forall>r. res = Inr r \<longrightarrow>
             totalInterest r = finalAmount r - Num P \<and>
             amount_at_year lib (Num P) (Num R) freq 0 = Num P \<and>
             (\<forall>i. i < t \<longrightarrow>
                amount (yearlyBreakdown r ! i) = amount_at_year lib (Num P) (Num R) freq (i + 1) \<and>
                interestEarned (yearlyBreakdown r ! i) =
                  amount_at_year lib (Num P) (Num R) freq (i + 1)
                    - amount_at_year lib (Num P) (Num R) freq i) \<and>
             interestEarned (yearlyBreakdown r ! 0) = amount (yearlyBreakdown r ! 0) - Num P)"
proof -
  let ?p = "\<lparr>principal = Num P, rate = Num R, time = Num (real t), frequency = freq,
             startDate = sd\<rparr>"
  let ?A = "amount_at_year lib (Num P) (Num R) freq"
  have am: "yearAmount lib ?p (Num (real (Suc y))) = ?A (Suc y)" for y
    using yearAmount_spec [of "Suc y" lib ?p] by simp
  have a0: "?A 0 = Num P"
    by (simp add: amount_at_year_def)
  from compute_result [of ?p t lib tz] obtain res where
    res: "calculateCompoundInterest lib tz ?p = Some res"
    and err: "\<forall>e. res = Inl e \<longrightarrow> e = RangeError \<and>
         (\<exists>k. 1 \<le> k \<and> k \<le> t \<and> yearDate tz ?p k = Inl RangeError)"
    and rows: "\<forall>r. res = Inr r \<longrightarrow>
         totalInterest r = finalAmount r - principal ?p \<and>
         (\<forall>i. i < t \<longrightarrow>
            amount (yearlyBreakdown r ! i) = yearAmount lib ?p (Num (real (Suc i))) \<and>
            interestEarned (yearlyBreakdown r ! i) =
              amount (yearlyBreakdown r ! i) -
                (if i = 0 then principal ?p else amount (yearlyBreakdown r ! (i - 1))))"
    by auto
  have "e = RangeError \<and> (\<exists>d k. sd = Some d \<and> 1 \<le> k \<and> k \<le> t \<and>
      setFullYear tz (getFullYear d + Num (real k)) d = Invalid_Date)" if "res = Inl e" for e
    using err that compute_error_startDate [of tz ?p] by fastforce
  moreover have "totalInterest r = finalAmount r - Num P \<and>
             ?A 0 = Num P \<and>
             (\<forall>i. i < t \<longrightarrow>
                amount (yearlyBreakdown r ! i) = ?A (i + 1) \<and>
                interestEarned (yearlyBreakdown r ! i) = ?A (i + 1) - ?A i) \<and>
             interestEarned (yearlyBreakdown r ! 0) = amount (yearlyBreakdown r ! 0) - Num P"
    if r: "res = Inr r" for r
  proof -
    from rows r have tot: "totalInterest r = finalAmount r - Num P"
      and amt: "\<And>i. i < t \<Longrightarrow> amount (yearlyBreakdown r ! i) = ?A (Suc i)"
      and int: "\<And>i. i < t \<Longrightarrow> interestEarned (yearlyBreakdown r ! i) =
              amount (yearlyBreakdown r ! i) -
                (if i = 0 then Num P else amount (yearlyBreakdown r ! (i - 1)))"
      by (simp_all add: am del: of_nat_Suc)
    have "interestEarned (yearlyBreakdown r ! i) = ?A (i + 1) - ?A i" if i: "i < t" for i
    proof (cases i)
      case 0
      with int [OF i] amt [OF i] a0 show ?thesis by simp
    next
      case (Suc j)
      then have "j < t" using i by simp
      from amt [OF this] int [OF i] amt [OF i] Suc show ?thesis by simp
    qed
    moreover have "interestEarned (yearlyBreakdown r ! 0) = amount (yearlyBreakdown r ! 0) - Num P"
      using int [of 0] assms(3) by simp
    ultimately show ?thesis using tot a0 amt by simp
  qed
  ultimately show ?thesis using res by blast
qed

theorem interest_is_difference_of_amounts_witness:
  "(0::real) < 1000 \<and> (0::real) < 100 \<and> (1::nat) \<le> 3 \<and>
   (\<exists>r. calculateCompoundInterest nearest_double_library (\<lambda>_. 0)
            \<lparr>principal = Num 1000, rate = Num 100, time = Num 3, frequency = annually,
             startDate = None\<rparr> = Some (Inr r) \<and>
        totalInterest r = finalAmount r - Num 1000 \<and>
        amount (yearlyBreakdown r ! 0) = Num 2000 \<and>
        amount (yearlyBreakdown r ! 1) = Num 4000 \<and>
        amount (yearlyBreakdown r ! 2) = Num 8000 \<and>
        interestEarned (yearlyBreakdown r ! 0) = Num 1000 \<and>
        interestEarned (yearlyBreakdown r ! 1) = Num 2000 \<and>
        interestEarned (yearlyBreakdown r ! 2) = Num 4000)"
proof -
  let ?A = "amount_at_year nearest_double_library (Num 1000) (Num 100) annually"
  have h: "(0::real) < 1000" "(0::real) < 100" "(1::nat) \<le> 3" by simp_all
  have a: "?A 0 = Num 1000" "?A 1 = Num 2000" "?A 2 = Num 4000" "?A 3 = Num 8000"
    by (simp_all add: amount_at_year_def)
  have m: "Num 2000 - Num 1000 = Num 1000" "Num 4000 - Num 2000 = Num 2000"
    "Num 8000 - Num 4000 = Num 4000"
    by (simp_all add: Num_minus)
  from interest_is_difference_of_amounts [OF h, of nearest_double_library "\<lambda>_. 0" annually None]
  obtain res where
    c: "calculateCompoundInterest nearest_double_library (\<lambda>_. 0)
            \<lparr>principal = Num 1000, rate = Num 100, time = Num 3, frequency = annually,
             startDate = None\<rparr> = Some res"
    and e: "\<forall>e. res \<noteq> Inl e"
    and r: "\<forall>r. res = Inr r \<longrightarrow> totalInterest r = finalAmount r - Num 1000 \<and>
       (\<forall>i. i < 3 \<longrightarrow> amount (yearlyBreakdown r ! i) = ?A (i + 1) \<and>
            interestEarned (yearlyBreakdown r ! i) = ?A (i + 1) - ?A i)"
    by auto
  from e obtain r' where r': "res = Inr r'" by (cases res) auto
  with r have "totalInterest r' = finalAmount r' - Num 1000"
    and i: "\<And>i. i < 3 \<Longrightarrow> amount (yearlyBreakdown r' ! i) = ?A (i + 1) \<and>
            interestEarned (yearlyBreakdown r' ! i) = ?A (i + 1) - ?A i"
    by simp_all
  moreover from i [of 0] i [of 1] i [of 2] a m
  have "amount (yearlyBreakdown r' ! 0) = Num 2000"
    "amount (yearlyBreakdown r' ! 1) = Num 4000"
    "amount (yearlyBreakdown r' ! 2) = Num 8000"
    "interestEarned (yearlyBreakdown r' ! 0) = Num 1000"
    "interestEarned (yearlyBreakdown r' ! 1) = Num 2000"
    "interestEarned (yearlyBreakdown r' ! 2) = Num 4000"
    by (simp_all add: numeral_2_eq_2 numeral_3_eq_3)
  ultimately show ?thesis using c r' by simp
qed

text \<open>
  Claim C5. Whenever \<open>time\<close> is a whole number \<open>t \<ge> 1\<close>, for each of the seven
  frequencies and whatever the principal and the rate are, the amount of the last row,
  at index \<open>t - 1\<close>, is the final amount: the two are the value of one expression at
  \<open>year = time\<close>, the same operations on the same doubles.
\<close>

theorem last_row_is_finalAmount:
  assumes "time params = Num (real t)" "1 \<le> t"
  shows "\<exists>res. calculateCompoundInterest lib tz params = Some res \<and>
          (\<forall>e. res = Inl e \<longrightarrow> e = RangeError \<and>
             (\<exists>d k. startDate params = Some d \<and> 1 \<le> k \<and> k \<le> t \<and>
                setFullYear tz (getFullYear d + Num (real k)) d = Invalid_Date)) \<and>
          (\<forall>r. res = Inr r \<longrightarrow>
             length (yearlyBreakdown r) = t \<and> amount (yearlyBreakdown r ! (t - 1)) = finalAmount r)"
proof -
  from compute_result [OF assms(1), of lib tz] obtain res where
    res: "calculateCompoundInterest lib tz params = Some res"
    and err: "\<forall>e. res = Inl e \<longrightarrow> e = RangeError \<and>
         (\<exists>k. 1 \<le> k \<and> k \<le> t \<and> yearDate tz params k = Inl RangeError)"
    and rows: "\<forall>r. res = Inr r \<longrightarrow>
         finalAmount r = yearAmount lib params (Num (real t)) \<and> length (yearlyBreakdown r) = t \<and>
         (\<forall>i. i < t \<longrightarrow> amount (yearlyBreakdown r ! i) = yearAmount lib params (Num (real (Suc i))))"
    by auto
  have "e = RangeError \<and> (\<exists>d k. startDate params = Some d \<and> 1 \<le> k \<and> k \<le> t \<and>
      setFullYear tz (getFullYear d + Num (real k)) d = Invalid_Date)" if "res = Inl e" for e
    using err that compute_error_startDate [of tz params] by fastforce
  moreover have "length (yearlyBreakdown r) = t \<and>
      amount (yearlyBreakdown r ! (t - 1)) = finalAmount r" if r: "res = Inr r" for r
  proof -
    have "t - 1 < t" "Suc (t - 1) = t" using assms(2) by simp_all
    with rows r show ?thesis by metis
  qed
  ultimately show ?thesis using res by blast
qed

theorem last_row_is_finalAmount_witness:
  "time \<lparr>principal = Num 1000, rate = Num 100, time = Num 2, frequency = continuously,
          startDate = None\<rparr> = Num (real 2) \<and> (1::nat) \<le> 2 \<and>
   (\<exists>r. calculateCompoundInterest nearest_double_library (\<lambda>_. 0)
            \<lparr>principal = Num 1000, rate = Num 100, time = Num 2, frequency = continuously,
             startDate = None\<rparr> = Some (Inr r) \<and>
        length (yearlyBreakdown r) = 2 \<and> amount (yearlyBreakdown r ! 1) = finalAmount r)"
proof -
  let ?p = "\<lparr>principal = Num 1000, rate = Num 100, time = Num 2, frequency = continuously,
             startDate = None :: Date option\<rparr>"
  have h: "time ?p = Num (real 2)" "(1::nat) \<le> 2" by simp_all
  from last_row_is_finalAmount [OF h, of nearest_double_library "\<lambda>_. 0"] obtain res where
    "calculateCompoundInterest nearest_double_library (\<lambda>_. 0) ?p = Some res"
    "\<forall>e. res \<noteq> Inl e"
    "\<forall>r. res = Inr r \<longrightarrow> length (yearlyBreakdown r) = 2 \<and>
        amount (yearlyBreakdown r ! 1) = finalAmount r"
    by auto
  then show ?thesis by (cases res) auto
qed

section \<open>A time of zero years\<close>

text \<open>
  Claim C10, for finite numbers. With \<open>time = 0\<close>, any frequency, and any finite
  principal and rate of either sign (a finite number is a double), the computation does
  not fail: it returns no rows, the principal as final amount and a total interest of 0.
\<close>

theorem zero_time_finite:
  assumes "is_double P" "is_double R"
  shows "calculateCompoundInterest lib tz
     \<lparr>principal = Num P, rate = Num R, time = Num 0, frequency = freq, startDate = sd\<rparr> =
   Some (Inr \<lparr>finalAmount = Num P, totalInterest = Num 0, yearlyBreakdown = [],
              formula = getFormula freq\<rparr>)"
proof -
  let ?p = "\<lparr>principal = Num P, rate = Num R, time = Num 0, frequency = freq, startDate = sd\<rparr>"
  have loop: "yearly_loop lib tz ?p 1 [] = Some (Inr [])"
    by (subst yearly_loop.simps) simp
  have pow: "Math_pow lib b (getFrequencyValue freq * Num 0) = Num 1" if "freq \<noteq> continuously" for b
    using that by (cases freq) simp_all
  have "\<bar>R\<bar> < overflow_threshold" using assms(2) by (rule is_double_bound)
  then have "3 / 2 * \<bar>R / 100\<bar> + 1 / 2 < overflow_threshold"
    using one_le_threshold by simp
  then obtain q where q: "round64 (R / 100) = Num q" using round64_finite by blast
  have p1: "round64 P = Num P" using assms(1) by (simp only: is_double_def)
  have p0: "Num P - Num P = Num 0" by (simp add: Num_minus)
  have "calculateCompoundInterest lib tz ?p =
      Some (Inr \<lparr>finalAmount = yearAmount lib ?p (Num 0),
                 totalInterest = yearAmount lib ?p (Num 0) - Num P,
                 yearlyBreakdown = [], formula = getFormula freq\<rparr>)"
    unfolding calculateCompoundInterest_def yearAmount_def Let_def loop by simp
  moreover have "yearAmount lib ?p (Num 0) = Num P"
    by (simp add: yearAmount_def Let_def pow q p1)
  ultimately show ?thesis by (simp add: p0)
qed

theorem zero_time_finite_witness:
  "is_double 1000 \<and> is_double 5 \<and>
   calculateCompoundInterest nearest_double_library (\<lambda>_. 0)
     \<lparr>principal = Num 1000, rate = Num 5, time = Num 0, frequency = monthly, startDate = None\<rparr> =
   Some (Inr \<lparr>finalAmount = Num 1000, totalInterest = Num 0, yearlyBreakdown = [],
              formula = ''A = P(1 + r/n)^(nt)''\<rparr>)"
  using zero_time_finite [of 1000 5 nearest_double_library "\<lambda>_. 0" monthly None]
  by (simp add: getFormula_def)

text \<open>
  The claim does not extend to a principal that is not finite: with an infinite
  principal the total interest is \<open>Infinity - Infinity\<close>, which is \<open>NaN\<close>.
\<close>

theorem zero_time_infinite_principal:
  "calculateCompoundInterest nearest_double_library (\<lambda>_. 0)
     \<lparr>principal = Infinity, rate = Num 5, time = Num 0, frequency = annually, startDate = None\<rparr> =
   Some (Inr \<lparr>finalAmount = Infinity, totalInterest = NaN, yearlyBreakdown = [],
              formula = ''A = P(1 + r/n)^(nt)''\<rparr>) \<and> NaN \<noteq> Num 0"
  by (simp add: calculateCompoundInterest_def yearly_loop.simps getFormula_def
      signed_infinity_def minus_number_def)

section \<open>The dates of the rows\<close>

lemma digit_not_T: "digit n \<noteq> CHR ''T''"
proof -
  have "n mod 10 < length ''0123456789''" by simp
  then have "''0123456789'' ! (n mod 10) \<in> set ''0123456789''" by (rule nth_mem)
  then show ?thesis unfolding digit_def by auto
qed

lemma iso_date_no_T: "c \<in> set (iso_date u) \<Longrightarrow> c \<noteq> CHR ''T''"
  by (auto simp: iso_date_def iso_year_def pad2_def pad3_def pad4_def pad6_def digit_not_T
        digit_not_T [symmetric] split: if_splits)

lemma split_T_0_iso_date: "split_T_0 (iso_date u @ ''T'' @ rest) = iso_date u"
  unfolding split_T_0_def using iso_date_no_T by (subst takeWhile_append2) auto

lemma UTC_fields_same_day:
  assumes "0 \<le> int (msOfDay g) + tz g * 60000" "int (msOfDay g) + tz g * 60000 < 86400000"
  shows "UTC_fields tz g = g\<lparr>msOfDay := nat (int (msOfDay g) + tz g * 60000)\<rparr>"
  using assms by (simp add: UTC_fields_def Let_def)

lemma iso_date_msOfDay [simp]: "iso_date (g\<lparr>msOfDay := m\<rparr>) = iso_date g"
  by (simp add: iso_date_def)

lemma MakeDay_fields:
  assumes "valid_fields f"
  shows "MakeDay (f\<lparr>fullYear := y\<rparr>) =
     (if month f = 1 \<and> dayOfMonth f = 29 \<and> \<not> InLeapYear y
      then f\<lparr>fullYear := y, month := 2, dayOfMonth := 1\<rparr> else f\<lparr>fullYear := y\<rparr>)"
  using assms by (auto simp: MakeDay_def valid_fields_def DaysInMonth_def Let_def split: if_splits)

lemma TimeClip_four_digit_year:
  assumes "0 \<le> int (msOfDay g) + tz g * 60000" "int (msOfDay g) + tz g * 60000 < 86400000"
    "0 \<le> fullYear g" "fullYear g \<le> 9999"
  shows "TimeClip tz g = Date_of g"
  using assms by (simp add: TimeClip_def UTC_fields_same_day fields_le_def)

lemma ToIntegerOrInfinity_of_int: "ToIntegerOrInfinity (real_of_int z) = z"
  by (simp add: ToIntegerOrInfinity_def)

lemma yearDate_anniversary:
  assumes sd: "startDate params = Some (Date_of f)"
    and v: "valid_fields f"
    and tz: "\<forall>g. 0 \<le> int (msOfDay f) + tz g * 60000 \<and> int (msOfDay f) + tz g * 60000 < 86400000"
    and y: "0 \<le> fullYear f + int k" "fullYear f + int k \<le> 9999"
  shows "yearDate tz params k =
     Inr (Some (if month f = 1 \<and> dayOfMonth f = 29 \<and> \<not> InLeapYear (fullYear f + int k)
                then pad4 (nat (fullYear f + int k)) @ ''-03-01''
                else pad4 (nat (fullYear f + int k)) @ ''-'' @ pad2 (month f + 1) @ ''-''
                     @ pad2 (dayOfMonth f)))"
proof -
  let ?y = "fullYear f + int k"
  let ?g = "MakeDay (f\<lparr>fullYear := ?y\<rparr>)"
  have "\<bar>?y\<bar> < 2 ^ 53" using y by simp
  then have "round64 (of_int ?y) = Num (of_int ?y)" by (rule round64_of_int)
  then have yr: "getFullYear (Date_of f) + Num (real k) = Num (of_int ?y)"
    by (simp add: getFullYear_def)
  have ti: "ToIntegerOrInfinity (of_int ?y) = ?y"
    by (rule ToIntegerOrInfinity_of_int)
  have g: "?g = (if month f = 1 \<and> dayOfMonth f = 29 \<and> \<not> InLeapYear ?y
      then f\<lparr>fullYear := ?y, month := 2, dayOfMonth := 1\<rparr> else f\<lparr>fullYear := ?y\<rparr>)"
    by (rule MakeDay_fields [OF v])
  then have gm: "msOfDay ?g = msOfDay f" and gy: "fullYear ?g = ?y" by (simp_all split: if_splits)
  have same: "0 \<le> int (msOfDay ?g) + tz ?g * 60000" "int (msOfDay ?g) + tz ?g * 60000 < 86400000"
    using tz gm by simp_all
  have clip: "TimeClip tz ?g = Date_of ?g"
    using TimeClip_four_digit_year [of ?g tz] same y gy by simp
  have set: "setFullYear tz (getFullYear (Date_of f) + Num (real k)) (Date_of f) = Date_of ?g"
    by (simp only: yr setFullYear_def Date.case number.case ti clip)
  have iso: "toISOString tz (Date_of ?g) =
      Inr (iso_date ?g @ ''T'' @ iso_time (msOfDay (UTC_fields tz ?g)) @ ''Z'')"
    using UTC_fields_same_day [of ?g tz] same by (simp add: toISOString_def Let_def)
  have "yearDate tz params k = Inr (Some (iso_date ?g))"
    unfolding yearDate_def sd by (simp only: option.case set iso sum.case split_T_0_iso_date)
  also have "iso_date ?g = (if month f = 1 \<and> dayOfMonth f = 29 \<and> \<not> InLeapYear ?y
                then pad4 (nat ?y) @ ''-03-01''
                else pad4 (nat ?y) @ ''-'' @ pad2 (month f + 1) @ ''-'' @ pad2 (dayOfMonth f))"
    unfolding g using y by (simp add: iso_date_def iso_year_def pad2_def digit_def)
  finally show ?thesis .
qed

lemma yearDate_present:
  "yearDate tz params yr = Inr d \<Longrightarrow> (d \<noteq> None) = (startDate params \<noteq> None)"
  by (auto simp: yearDate_def split: option.splits sum.splits)

text \<open>
  Claim C9, as the code has it. For valid parameters every row has a date exactly when
  a start date was supplied. Let the start date be a valid date of a year from 0 on
  whose anniversaries stay within the year 9999, on a host where the local reading of
  its time of day and the UTC reading fall on the same calendar day (a UTC host, for
  one). Then the computation returns, and the date of the row of year \<open>y\<close> is written
  \<^verbatim>\<open>YYYY-MM-DD\<close> with the start date's month and day and its year moved by \<open>y\<close>; but
  a start date of 29 February gives 1 March in every year that is not a leap year.
\<close>

theorem breakdown_dates:
  assumes "0 < P" "0 < R" "1 \<le> t"
  shows "\<exists>res. calculateCompoundInterest lib tz
            \<lparr>principal = Num P, rate = Num R, time = Num (real t), frequency = freq,
             startDate = sd\<rparr> = Some res \<and>
          (\<forall>e. res = Inl e \<longrightarrow> e = RangeError \<and>
             (\<exists>d k. sd = Some d \<and> 1 \<le> k \<and> k \<le> t \<and>
                setFullYear tz (getFullYear d + Num (real k)) d = Invalid_Date)) \<and>
          (\<forall>r. res = Inr r \<longrightarrow>
             (\<forall>i. i < t \<longrightarrow> (date (yearlyBreakdown r ! i) \<noteq> None) = (sd \<noteq> None))) \<and>
          (\<forall>f. sd = Some (Date_of f) \<and> valid_fields f \<and>
                (\<forall>g. 0 \<le> int (msOfDay f) + tz g * 60000 \<and>
                     int (msOfDay f) + tz g * 60000 < 86400000) \<and>
                0 \<le> fullYear f \<and> fullYear f + int t \<le> 9999 \<longrightarrow>
             (\<exists>r. res = Inr r \<and>
                (\<forall>i. i < t \<longrightarrow>
                   date (yearlyBreakdown r ! i) =
                     Some (if month f = 1 \<and> dayOfMonth f = 29
                              \<and> \<not> InLeapYear (fullYear f + int (i + 1))
                           then pad4 (nat (fullYear f + int (i + 1))) @ ''-03-01''
                           else pad4 (nat (fullYear f + int (i + 1))) @ ''-''
                                @ pad2 (month f + 1) @ ''-'' @ pad2 (dayOfMonth f)))))"
proof -
  let ?p = "\<lparr>principal = Num P, rate = Num R, time = Num (real t), frequency = freq,
             startDate = sd\<rparr>"
  let ?d = "\<lambda>f k. Some (if month f = 1 \<and> dayOfMonth f = 29 \<and> \<not> InLeapYear (fullYear f + int k)
                           then pad4 (nat (fullYear f + int k)) @ ''-03-01''
                           else pad4 (nat (fullYear f + int k)) @ ''-''
                                @ pad2 (month f + 1) @ ''-'' @ pad2 (dayOfMonth f))"
  from compute_result [of ?p t lib tz] obtain res where
    res: "calculateCompoundInterest lib tz ?p = Some res"
    and err: "\<forall>e. res = Inl e \<longrightarrow> e = RangeError \<and>
         (\<exists>k. 1 \<le> k \<and> k \<le> t \<and> yearDate tz ?p k = Inl RangeError)"
    and rows: "\<forall>r. res = Inr r \<longrightarrow>
         (\<forall>i. i < t \<longrightarrow> yearDate tz ?p (Suc i) = Inr (date (yearlyBreakdown r ! i)))"
    by auto
  have "e = RangeError \<and> (\<exists>d k. sd = Some d \<and> 1 \<le> k \<and> k \<le> t \<and>
      setFullYear tz (getFullYear d + Num (real k)) d = Invalid_Date)" if "res = Inl e" for e
    using err that compute_error_startDate [of tz ?p] by fastforce
  moreover have "(date (yearlyBreakdown r ! i) \<noteq> None) = (sd \<noteq> None)"
    if "res = Inr r" "i < t" for r i
    using rows that yearDate_present [of tz ?p "Suc i"] by simp
  moreover have "\<exists>r. res = Inr r \<and> (\<forall>i. i < t \<longrightarrow> date (yearlyBreakdown r ! i) = ?d f (i + 1))"
    if sd: "sd = Some (Date_of f)" and v: "valid_fields f"
      and z: "\<forall>g. 0 \<le> int (msOfDay f) + tz g * 60000 \<and> int (msOfDay f) + tz g * 60000 < 86400000"
      and y: "0 \<le> fullYear f" "fullYear f + int t \<le> 9999" for f
  proof -
    have yd: "yearDate tz ?p k = Inr (?d f k)" if "k \<le> t" for k
      using yearDate_anniversary [of ?p f tz k] sd v z y that by simp
    have "res \<noteq> Inl e" for e
    proof
      assume "res = Inl e"
      with err obtain k where "k \<le> t" "yearDate tz ?p k = Inl RangeError" by blast
      with yd [of k] show False by simp
    qed
    then obtain r where r: "res = Inr r" by (cases res) auto
    have "date (yearlyBreakdown r ! i) = ?d f (i + 1)" if i: "i < t" for i
    proof -
      from rows r i have "yearDate tz ?p (Suc i) = Inr (date (yearlyBreakdown r ! i))"
        by blast
      moreover have "yearDate tz ?p (Suc i) = Inr (?d f (Suc i))"
        by (rule yd [OF Suc_leI [OF i]])
      ultimately have "date (yearlyBreakdown r ! i) = ?d f (Suc i)"
        by (metis sum.inject(2))
      then show ?thesis by (simp only: Suc_eq_plus1)
    qed
    with r show ?thesis by blast
  qed
  ultimately show ?thesis using res by blast
qed

theorem breakdown_dates_witness:
  "(0::real) < 10000 \<and> (0::real) < 5 \<and> (1::nat) \<le> 2 \<and>
   valid_fields \<lparr>fullYear = 2024, month = 0, dayOfMonth = 15, msOfDay = 0\<rparr> \<and>
   (\<exists>r. calculateCompoundInterest nearest_double_library (\<lambda>_. 0)
            \<lparr>principal = Num 10000, rate = Num 5, time = Num 2, frequency = annually,
             startDate = Some (Date_of \<lparr>fullYear = 2024, month = 0, dayOfMonth = 15,
                                        msOfDay = 0\<rparr>)\<rparr> = Some (Inr r) \<and>
        date (yearlyBreakdown r ! 0) = Some ''2025-01-15'' \<and>
        date (yearlyBreakdown r ! 1) = Some ''2026-01-15'')"
proof -
  let ?f = "\<lparr>fullYear = 2024, month = 0, dayOfMonth = 15, msOfDay = 0\<rparr>"
  have h: "(0::real) < 10000" "(0::real) < 5" "(1::nat) \<le> 2" by simp_all
  have v: "valid_fields ?f" by (simp add: valid_fields_def DaysInMonth_def)
  from breakdown_dates [OF h, of nearest_double_library "\<lambda>_. 0" annually "Some (Date_of ?f)"] v obtain r where
    "calculateCompoundInterest nearest_double_library (\<lambda>_. 0)
            \<lparr>principal = Num 10000, rate = Num 5, time = Num 2, frequency = annually,
             startDate = Some (Date_of ?f)\<rparr> = Some (Inr r)"
    "\<forall>i. i < 2 \<longrightarrow> date (yearlyBreakdown r ! i) =
        Some (pad4 (nat (2024 + int (i + 1))) @ ''-'' @ pad2 1 @ ''-'' @ pad2 15)"
    by auto
  moreover have "pad4 2025 = ''2025''" "pad4 2026 = ''2026''" "pad2 1 = ''01''" "pad2 15 = ''15''"
    by (simp_all add: pad4_def pad3_def pad2_def digit_def)
  ultimately show ?thesis using v
    by (auto simp: numeral_2_eq_2)
qed

text \<open>
  The claim as stated, the same month and day in every row, fails for a start date of
  29 February 2024 on a UTC host: the row of year 1 is dated 1 March 2025.
\<close>

theorem leap_day_start_date:
  "calculateCompoundInterest nearest_double_library (\<lambda>_. 0)
     \<lparr>principal = Num 1000, rate = Num 100, time = Num 1, frequency = annually,
      startDate = Some (Date_of \<lparr>fullYear = 2024, month = 1, dayOfMonth = 29, msOfDay = 0\<rparr>)\<rparr> =
   Some (Inr \<lparr>finalAmount = Num 2000, totalInterest = Num 1000,
              yearlyBreakdown =
                [\<lparr>year = Num 1, amount = Num 2000, interestEarned = Num 1000,
                  date = Some ''2025-03-01''\<rparr>],
              formula = ''A = P(1 + r/n)^(nt)''\<rparr>)"
  by (simp add: calculateCompoundInterest_def yearly_loop.simps breakdown_row_def Let_def
      previousAmount_def yearAmount_def yearDate_def getFormula_def toISOString_def setFullYear_def
      getFullYear_def TimeClip_def UTC_fields_def MakeDay_def DaysInMonth_def InLeapYear_def
      ToIntegerOrInfinity_def fields_le_def iso_date_def iso_year_def iso_time_def pad2_def
      pad3_def pad4_def digit_def split_T_0_def minus_number_def)

text \<open>
  The year is moved in local time and the date is written in UTC. On a host five hours
  west of UTC the instant 2024-03-01T00:00Z reads 29 February 19:00; its row of year 1
  is dated 2 March 2025.
\<close>

lemma west_of_UTC_start_date:
  "yearDate (\<lambda>_. 300)
     \<lparr>principal = Num 1000, rate = Num 5, time = Num 1, frequency = annually,
      startDate = Some (Date_of \<lparr>fullYear = 2024, month = 1, dayOfMonth = 29,
                                 msOfDay = 68400000\<rparr>)\<rparr> 1 =
   Inr (Some ''2025-03-02'')"
  by (simp add: yearDate_def toISOString_def setFullYear_def
      getFullYear_def TimeClip_def UTC_fields_def MakeDay_def next_day_def DaysInMonth_def
      InLeapYear_def ToIntegerOrInfinity_def fields_le_def iso_date_def iso_year_def iso_time_def
      pad2_def pad3_def pad4_def digit_def split_T_0_def)

text \<open>A year after 9999 is written with a sign and six digits.\<close>

lemma year_after_9999:
  "yearDate (\<lambda>_. 0)
     \<lparr>principal = Num 1000, rate = Num 5, time = Num 1, frequency = annually,
      startDate = Some (Date_of \<lparr>fullYear = 9999, month = 5, dayOfMonth = 15,
                                 msOfDay = 0\<rparr>)\<rparr> 1 =
   Inr (Some ''+010000-06-15'')"
  by (simp add: yearDate_def toISOString_def setFullYear_def
      getFullYear_def TimeClip_def UTC_fields_def MakeDay_def DaysInMonth_def
      InLeapYear_def ToIntegerOrInfinity_def fields_le_def iso_date_def iso_year_def iso_time_def
      pad2_def pad3_def pad4_def pad6_def digit_def split_T_0_def)

section \<open>Reading, deleting and saving the history\<close>

lemma getCalculationHistory_setItem:
  "getCalculationHistory (setItem ''calculationHistory'' (JSON_stringify items) store) = Inr items"
  by (simp add: getCalculationHistory_def getItem_def setItem_def JSON_stringify_def JSON_parse_def)

lemma toISOString_valid: "\<exists>s. toISOString tz (Date_of f) = Inr s"
  by (simp add: toISOString_def Let_def)

text \<open>
  Claim C6, as the code has it. Listing returns the empty list when nothing is stored
  under the key or the stored text is empty, and the stored records when the text is
  their JSON; a stored text that is not JSON makes \<^verbatim>\<open>JSON.parse\<close> raise, and the
  \<open>SyntaxError\<close> reaches the caller.
\<close>

theorem list_of_stored_text:
  "getCalculationHistory store =
     (case getItem store ''calculationHistory'' of
        None \<Rightarrow> Inr []
      | Some Empty_text \<Rightarrow> Inr []
      | Some Unparsable_text \<Rightarrow> Inl SyntaxError
      | Some (JSON_text items) \<Rightarrow> Inr items)"
  by (simp add: getCalculationHistory_def JSON_parse_def split: option.splits storage_text.splits)

text \<open>The claim as stated, an empty list for a corrupted text, fails:\<close>

theorem list_of_corrupted_storage:
  "getCalculationHistory [''calculationHistory'' \<mapsto> Unparsable_text] = Inl SyntaxError"
  by (simp add: getCalculationHistory_def getItem_def JSON_parse_def)

text \<open>
  Claim C8, as the code has it. On a readable collection, deleting by id keeps exactly
  the records with another id, in their order (the filter). An id that no record has
  leaves the collection as it was. When the ids of the collection are distinct and one
  record has the id, that one record is removed and the records before and after it
  stay.
\<close>

theorem delete_removes_matching:
  assumes "getCalculationHistory store = Inr history"
  shows "\<exists>store'. deleteCalculation i store = Inr store' \<and>
           getCalculationHistory store' = Inr (filter (\<lambda>item. id' item \<noteq> i) history) \<and>
           (i \<notin> id' ` set history \<longrightarrow> getCalculationHistory store' = Inr history) \<and>
           (i \<in> id' ` set history \<and> distinct (map id' history) \<longrightarrow>
              (\<exists>before item after. history = before @ item # after \<and> id' item = i \<and>
                 getCalculationHistory store' = Inr (before @ after)))"
proof -
  let ?keep = "filter (\<lambda>item. id' item \<noteq> i) history"
  let ?store' = "setItem ''calculationHistory'' (JSON_stringify ?keep) store"
  have d: "deleteCalculation i store = Inr ?store'"
    using assms by (simp add: deleteCalculation_def Let_def)
  have l: "getCalculationHistory ?store' = Inr ?keep"
    by (rule getCalculationHistory_setItem)
  have absent: "?keep = history" if "i \<notin> id' ` set history"
    using that by (auto simp: filter_id_conv)
  have one: "\<exists>before item after. history = before @ item # after \<and> id' item = i \<and>
      ?keep = before @ after"
    if m: "i \<in> id' ` set history" and dist: "distinct (map id' history)"
  proof -
    from m obtain item where "item \<in> set history" "id' item = i" by auto
    then obtain before after where h: "history = before @ item # after"
      by (auto simp: in_set_conv_decomp)
    with dist \<open>id' item = i\<close> have "i \<notin> id' ` set before" "i \<notin> id' ` set after" by auto
    then have "filter (\<lambda>item. id' item \<noteq> i) before = before"
      "filter (\<lambda>item. id' item \<noteq> i) after = after"
      by (auto simp: filter_id_conv)
    with h \<open>id' item = i\<close> show ?thesis by auto
  qed
  show ?thesis using d l absent one by (intro exI [of _ ?store']) auto
qed

theorem delete_removes_matching_witness:
  "getCalculationHistory [''calculationHistory'' \<mapsto> JSON_text
      [\<lparr>params_part = \<lparr>principal = Some 10000, rate = Some 5, time = Some 1,
                       frequency = annually, startDate = None\<rparr>,
       result_part = \<lparr>finalAmount = Some 10500, totalInterest = Some 500,
                       yearlyBreakdown = [\<lparr>year = Some 1, amount = Some 10500,
                                           interestEarned = Some 500, date = None\<rparr>],
                       formula = ''A = P(1 + r/n)^(nt)''\<rparr>,
       id' = ''loyw3v27abc'', createdAt = ''2023-11-14T22:13:19.999Z''\<rparr>,
       \<lparr>params_part = \<lparr>principal = Some 2000, rate = Some 5, time = Some 1,
                       frequency = annually, startDate = None\<rparr>,
       result_part = \<lparr>finalAmount = Some 2100, totalInterest = Some 100,
                       yearlyBreakdown = [\<lparr>year = Some 1, amount = Some 2100,
                                           interestEarned = Some 100, date = None\<rparr>],
                       formula = ''A = P(1 + r/n)^(nt)''\<rparr>,
       id' = ''loyw3v284fzyo82mvyq'', createdAt = ''2023-11-14T22:13:20.000Z''\<rparr>,
       \<lparr>params_part = \<lparr>principal = Some 300, rate = Some 5, time = Some 1,
                       frequency = annually, startDate = None\<rparr>,
       result_part = \<lparr>finalAmount = Some 315, totalInterest = Some 15,
                       yearlyBreakdown = [\<lparr>year = Some 1, amount = Some 315,
                                           interestEarned = Some 15, date = None\<rparr>],
                       formula = ''A = P(1 + r/n)^(nt)''\<rparr>,
       id' = ''loyw3v29xyz'', createdAt = ''2023-11-14T22:13:20.001Z''\<rparr>]] =
     Inr [\<lparr>params_part = \<lparr>principal = Some 10000, rate = Some 5, time = Some 1,
                       frequency = annually, startDate = None\<rparr>,
       result_part = \<lparr>finalAmount = Some 10500, totalInterest = Some 500,
                       yearlyBreakdown = [\<lparr>year = Some 1, amount = Some 10500,
                                           interestEarned = Some 500, date = None\<rparr>],
                       formula = ''A = P(1 + r/n)^(nt)''\<rparr>,
       id' = ''loyw3v27abc'', createdAt = ''2023-11-14T22:13:19.999Z''\<rparr>,
       \<lparr>params_part = \<lparr>principal = Some 2000, rate = Some 5, time = Some 1,
                       frequency = annually, startDate = None\<rparr>,
       result_part = \<lparr>finalAmount = Some 2100, totalInterest = Some 100,
                       yearlyBreakdown = [\<lparr>year = Some 1, amount = Some 2100,
                                           interestEarned = Some 100, date = None\<rparr>],
                       formula = ''A = P(1 + r/n)^(nt)''\<rparr>,
       id' = ''loyw3v284fzyo82mvyq'', createdAt = ''2023-11-14T22:13:20.000Z''\<rparr>,
       \<lparr>params_part = \<lparr>principal = Some 300, rate = Some 5, time = Some 1,
                       frequency = annually, startDate = None\<rparr>,
       result_part = \<lparr>finalAmount = Some 315, totalInterest = Some 15,
                       yearlyBreakdown = [\<lparr>year = Some 1, amount = Some 315,
                                           interestEarned = Some 15, date = None\<rparr>],
                       formula = ''A = P(1 + r/n)^(nt)''\<rparr>,
       id' = ''loyw3v29xyz'', createdAt = ''2023-11-14T22:13:20.001Z''\<rparr>] \<and>
   getCalculationHistory (projr (deleteCalculation ''loyw3v284fzyo82mvyq''
     [''calculationHistory'' \<mapsto> JSON_text
      [\<lparr>params_part = \<lparr>principal = Some 10000, rate = Some 5, time = Some 1,
                       frequency = annually, startDate = None\<rparr>,
       result_part = \<lparr>finalAmount = Some 10500, totalInterest = Some 500,
                       yearlyBreakdown = [\<lparr>year = Some 1, amount = Some 10500,
                                           interestEarned = Some 500, date = None\<rparr>],
                       formula = ''A = P(1 + r/n)^(nt)''\<rparr>,
       id' = ''loyw3v27abc'', createdAt = ''2023-11-14T22:13:19.999Z''\<rparr>,
       \<lparr>params_part = \<lparr>principal = Some 2000, rate = Some 5, time = Some 1,
                       frequency = annually, startDate = None\<rparr>,
       result_part = \<lparr>finalAmount = Some 2100, totalInterest = Some 100,
                       yearlyBreakdown = [\<lparr>year = Some 1, amount = Some 2100,
                                           interestEarned = Some 100, date = None\<rparr>],
                       formula = ''A = P(1 + r/n)^(nt)''\<rparr>,
       id' = ''loyw3v284fzyo82mvyq'', createdAt = ''2023-11-14T22:13:20.000Z''\<rparr>,
       \<lparr>params_part = \<lparr>principal = Some 300, rate = Some 5, time = Some 1,
                       frequency = annually, startDate = None\<rparr>,
       result_part = \<lparr>finalAmount = Some 315, totalInterest = Some 15,
                       yearlyBreakdown = [\<lparr>year = Some 1, amount = Some 315,
                                           interestEarned = Some 15, date = None\<rparr>],
                       formula = ''A = P(1 + r/n)^(nt)''\<rparr>,
       id' = ''loyw3v29xyz'', createdAt = ''2023-11-14T22:13:20.001Z''\<rparr>]])) =
     Inr [\<lparr>params_part = \<lparr>principal = Some 10000, rate = Some 5, time = Some 1,
                       frequency = annually, startDate = None\<rparr>,
       result_part = \<lparr>finalAmount = Some 10500, totalInterest = Some 500,
                       yearlyBreakdown = [\<lparr>year = Some 1, amount = Some 10500,
                                           interestEarned = Some 500, date = None\<rparr>],
                       formula = ''A = P(1 + r/n)^(nt)''\<rparr>,
       id' = ''loyw3v27abc'', createdAt = ''2023-11-14T22:13:19.999Z''\<rparr>,
       \<lparr>params_part = \<lparr>principal = Some 300, rate = Some 5, time = Some 1,
                       frequency = annually, startDate = None\<rparr>,
       result_part = \<lparr>finalAmount = Some 315, totalInterest = Some 15,
                       yearlyBreakdown = [\<lparr>year = Some 1, amount = Some 315,
                                           interestEarned = Some 15, date = None\<rparr>],
                       formula = ''A = P(1 + r/n)^(nt)''\<rparr>,
       id' = ''loyw3v29xyz'', createdAt = ''2023-11-14T22:13:20.001Z''\<rparr>]"
proof -
  let ?x1 = "\<lparr>params_part = \<lparr>principal = Some 10000, rate = Some 5, time = Some 1,
                       frequency = annually, startDate = None\<rparr>,
       result_part = \<lparr>finalAmount = Some 10500, totalInterest = Some 500,
                       yearlyBreakdown = [\<lparr>year = Some 1, amount = Some 10500,
                                           interestEarned = Some 500, date = None\<rparr>],
                       formula = ''A = P(1 + r/n)^(nt)''\<rparr>,
       id' = ''loyw3v27abc'', createdAt = ''2023-11-14T22:13:19.999Z''\<rparr>"
  let ?x2 = "\<lparr>params_part = \<lparr>principal = Some 2000, rate = Some 5, time = Some 1,
                       frequency = annually, startDate = None\<rparr>,
       result_part = \<lparr>finalAmount = Some 2100, totalInterest = Some 100,
                       yearlyBreakdown = [\<lparr>year = Some 1, amount = Some 2100,
                                           interestEarned = Some 100, date = None\<rparr>],
                       formula = ''A = P(1 + r/n)^(nt)''\<rparr>,
       id' = ''loyw3v284fzyo82mvyq'', createdAt = ''2023-11-14T22:13:20.000Z''\<rparr>"
  let ?x3 = "\<lparr>params_part = \<lparr>principal = Some 300, rate = Some 5, time = Some 1,
                       frequency = annually, startDate = None\<rparr>,
       result_part = \<lparr>finalAmount = Some 315, totalInterest = Some 15,
                       yearlyBreakdown = [\<lparr>year = Some 1, amount = Some 315,
                                           interestEarned = Some 15, date = None\<rparr>],
                       formula = ''A = P(1 + r/n)^(nt)''\<rparr>,
       id' = ''loyw3v29xyz'', createdAt = ''2023-11-14T22:13:20.001Z''\<rparr>"
  let ?store = "[''calculationHistory'' \<mapsto> JSON_text [?x1, ?x2, ?x3]]"
  have h: "getCalculationHistory ?store = Inr [?x1, ?x2, ?x3]"
    by (simp add: getCalculationHistory_def getItem_def JSON_parse_def)
  from delete_removes_matching [OF h, of "''loyw3v284fzyo82mvyq''"] obtain store' where
    "deleteCalculation ''loyw3v284fzyo82mvyq'' ?store = Inr store'"
    "getCalculationHistory store' =
       Inr (filter (\<lambda>item. id' item \<noteq> ''loyw3v284fzyo82mvyq'') [?x1, ?x2, ?x3])"
    by blast
  with h show ?thesis by simp
qed

text \<open>
  The claim as stated, exactly one record removed, fails for a collection in which two
  records carry the id: both are removed.
\<close>

theorem delete_removes_both_duplicates:
  "getCalculationHistory [''calculationHistory'' \<mapsto> JSON_text
      [\<lparr>params_part = \<lparr>principal = Some 10000, rate = Some 5, time = Some 1,
                       frequency = annually, startDate = None\<rparr>,
       result_part = \<lparr>finalAmount = Some 10500, totalInterest = Some 500,
                       yearlyBreakdown = [\<lparr>year = Some 1, amount = Some 10500,
                                           interestEarned = Some 500, date = None\<rparr>],
                       formula = ''A = P(1 + r/n)^(nt)''\<rparr>,
       id' = ''loyw3v284fzyo82mvyq'', createdAt = ''2023-11-14T22:13:20.000Z''\<rparr>,
       \<lparr>params_part = \<lparr>principal = Some 2000, rate = Some 5, time = Some 1,
                       frequency = annually, startDate = None\<rparr>,
       result_part = \<lparr>finalAmount = Some 2100, totalInterest = Some 100,
                       yearlyBreakdown = [\<lparr>year = Some 1, amount = Some 2100,
                                           interestEarned = Some 100, date = None\<rparr>],
                       formula = ''A = P(1 + r/n)^(nt)''\<rparr>,
       id' = ''loyw3v284fzyo82mvyq'', createdAt = ''2023-11-14T22:13:20.000Z''\<rparr>]] =
     Inr [\<lparr>params_part = \<lparr>principal = Some 10000, rate = Some 5, time = Some 1,
                       frequency = annually, startDate = None\<rparr>,
       result_part = \<lparr>finalAmount = Some 10500, totalInterest = Some 500,
                       yearlyBreakdown = [\<lparr>year = Some 1, amount = Some 10500,
                                           interestEarned = Some 500, date = None\<rparr>],
                       formula = ''A = P(1 + r/n)^(nt)''\<rparr>,
       id' = ''loyw3v284fzyo82mvyq'', createdAt = ''2023-11-14T22:13:20.000Z''\<rparr>,
       \<lparr>params_part = \<lparr>principal = Some 2000, rate = Some 5, time = Some 1,
                       frequency = annually, startDate = None\<rparr>,
       result_part = \<lparr>finalAmount = Some 2100, totalInterest = Some 100,
                       yearlyBreakdown = [\<lparr>year = Some 1, amount = Some 2100,
                                           interestEarned = Some 100, date = None\<rparr>],
                       formula = ''A = P(1 + r/n)^(nt)''\<rparr>,
       id' = ''loyw3v284fzyo82mvyq'', createdAt = ''2023-11-14T22:13:20.000Z''\<rparr>] \<and>
   getCalculationHistory (projr (deleteCalculation ''loyw3v284fzyo82mvyq''
     [''calculationHistory'' \<mapsto> JSON_text
      [\<lparr>params_part = \<lparr>principal = Some 10000, rate = Some 5, time = Some 1,
                       frequency = annually, startDate = None\<rparr>,
       result_part = \<lparr>finalAmount = Some 10500, totalInterest = Some 500,
                       yearlyBreakdown = [\<lparr>year = Some 1, amount = Some 10500,
                                           interestEarned = Some 500, date = None\<rparr>],
                       formula = ''A = P(1 + r/n)^(nt)''\<rparr>,
       id' = ''loyw3v284fzyo82mvyq'', createdAt = ''2023-11-14T22:13:20.000Z''\<rparr>,
       \<lparr>params_part = \<lparr>principal = Some 2000, rate = Some 5, time = Some 1,
                       frequency = annually, startDate = None\<rparr>,
       result_part = \<lparr>finalAmount = Some 2100, totalInterest = Some 100,
                       yearlyBreakdown = [\<lparr>year = Some 1, amount = Some 2100,
                                           interestEarned = Some 100, date = None\<rparr>],
                       formula = ''A = P(1 + r/n)^(nt)''\<rparr>,
       id' = ''loyw3v284fzyo82mvyq'', createdAt = ''2023-11-14T22:13:20.000Z''\<rparr>]])) =
     Inr []"
  by (simp add: deleteCalculation_def Let_def getCalculationHistory_def getItem_def setItem_def JSON_parse_def JSON_stringify_def)

text \<open>
  The identifier is the clock reading in base 36 followed by the random text. Readings
  from \<open>36^7\<close> up to \<open>36^8\<close> milliseconds (the years 1972 to 2059) have eight digits, so
  two identifiers made at such readings are equal only when both the readings and the
  random texts after their first two characters are.
\<close>

lemma digit36_inj:
  assumes "a < 36" "b < 36" "digit36 a = digit36 b"
  shows "a = b"
proof -
  have "distinct ''0123456789abcdefghijklmnopqrstuvwxyz''" by simp
  moreover have "a < length ''0123456789abcdefghijklmnopqrstuvwxyz''"
    "b < length ''0123456789abcdefghijklmnopqrstuvwxyz''"
    using assms by simp_all
  moreover have "''0123456789abcdefghijklmnopqrstuvwxyz'' ! a = ''0123456789abcdefghijklmnopqrstuvwxyz'' ! b"
    using assms by (simp add: digit36_def)
  ultimately show ?thesis by (simp only: nth_eq_iff_index_eq)
qed

lemma digits36_not_Nil: "digits36 n \<noteq> []"
  by (subst digits36.simps) simp

lemma digits36_inj: "digits36 a = digits36 b \<Longrightarrow> a = b"
proof (induction a arbitrary: b rule: digits36.induct)
  case (1 a)
  show ?case
  proof (cases "a < 36")
    case True
    with "1.prems" have s: "[digit36 a] = digits36 b" by (subst (asm) digits36.simps) simp
    have b: "b < 36"
    proof (rule ccontr)
      assume "\<not> b < 36"
      then have "digits36 b = digits36 (b div 36) @ [digit36 b]" by (subst digits36.simps) simp
      with s digits36_not_Nil [of "b div 36"] show False by (cases "digits36 (b div 36)") auto
    qed
    then have "digits36 b = [digit36 b]" by (subst digits36.simps) simp
    with s have "digit36 a = digit36 b" by simp
    with True b show ?thesis by (rule digit36_inj)
  next
    case False
    then have a: "digits36 a = digits36 (a div 36) @ [digit36 a]" by (subst digits36.simps) simp
    have b: "\<not> b < 36"
    proof
      assume "b < 36"
      then have "digits36 b = [digit36 b]" by (subst digits36.simps) simp
      with a "1.prems" digits36_not_Nil [of "a div 36"] show False
        by (cases "digits36 (a div 36)") auto
    qed
    then have "digits36 b = digits36 (b div 36) @ [digit36 b]" by (subst digits36.simps) simp
    with a "1.prems" have q: "digits36 (a div 36) = digits36 (b div 36)"
      and r: "digit36 a = digit36 b" by simp_all
    from "1.IH" [OF False q] have "a div 36 = b div 36" .
    moreover have "digit36 (a mod 36) = digit36 (b mod 36)" using r by (simp add: digit36_def)
    then have "a mod 36 = b mod 36" by (intro digit36_inj) simp_all
    ultimately show ?thesis by (metis div_mult_mod_eq)
  qed
qed

lemma length_digits36:
  "36 ^ k \<le> n \<Longrightarrow> n < 36 ^ Suc k \<Longrightarrow> length (digits36 n) = Suc k"
proof (induction k arbitrary: n)
  case 0
  then show ?case by (subst digits36.simps) simp
next
  case (Suc k)
  have "(36::nat) \<le> 36 ^ Suc k" by simp
  with Suc.prems have n: "\<not> n < 36" by linarith
  have "36 ^ k \<le> n div 36" using Suc.prems(1) by (simp add: less_eq_div_iff_mult_less_eq)
  moreover have "n div 36 < 36 ^ Suc k" using Suc.prems(2) by (simp add: div_less_iff_less_mult)
  ultimately have "length (digits36 (n div 36)) = Suc k" by (rule Suc.IH)
  with n show ?case by (subst digits36.simps) simp
qed

lemma generateId_eq_iff:
  assumes "36 ^ 7 \<le> Date_now h1" "Date_now h1 < 36 ^ 8"
    and "36 ^ 7 \<le> Date_now h2" "Date_now h2 < 36 ^ 8"
  shows "generateId h1 = generateId h2 \<longleftrightarrow>
         Date_now h1 = Date_now h2 \<and>
         drop 2 (Math_random_toString_36 h1) = drop 2 (Math_random_toString_36 h2)"
proof -
  have len: "length (digits36 (nat (Date_now h))) = 8"
    if "36 ^ 7 \<le> Date_now h" "Date_now h < 36 ^ 8" for h :: Host
  proof -
    have "(36::nat) ^ 7 \<le> nat (Date_now h)" "nat (Date_now h) < 36 ^ Suc 7"
      using that by (simp_all add: le_nat_iff nat_less_iff)
    then show ?thesis using length_digits36 [of 7 "nat (Date_now h)"] by simp
  qed
  have ts: "toString_36 (Date_now h) = digits36 (nat (Date_now h))"
    if "36 ^ 7 \<le> Date_now h" for h :: Host
    using that by (simp add: toString_36_def)
  have "generateId h1 = generateId h2 \<longleftrightarrow>
      digits36 (nat (Date_now h1)) @ drop 2 (Math_random_toString_36 h1) =
      digits36 (nat (Date_now h2)) @ drop 2 (Math_random_toString_36 h2)"
    using assms by (simp add: generateId_def ts)
  also have "\<dots> \<longleftrightarrow> digits36 (nat (Date_now h1)) = digits36 (nat (Date_now h2)) \<and>
      drop 2 (Math_random_toString_36 h1) = drop 2 (Math_random_toString_36 h2)"
    using len [of h1] len [of h2] assms by simp
  also have "digits36 (nat (Date_now h1)) = digits36 (nat (Date_now h2)) \<longleftrightarrow>
      Date_now h1 = Date_now h2"
  proof
    assume "digits36 (nat (Date_now h1)) = digits36 (nat (Date_now h2))"
    then have "nat (Date_now h1) = nat (Date_now h2)" by (rule digits36_inj)
    with assms show "Date_now h1 = Date_now h2" by simp
  qed simp
  finally show ?thesis .
qed

text \<open>
  On a readable collection, saving and then listing gives the new record first and the
  prior records after it, unchanged and in their order. The new record carries the
  parameters and the result as JSON keeps them, the ISO string of the clock as
  \<^verbatim>\<open>createdAt\<close>, and the generated identifier.
\<close>

lemma save_then_list:
  assumes "getCalculationHistory store = Inr prior"
  shows "\<exists>store' now.
           saveCalculation host p r store = Inr store' \<and>
           toISOString (timezone host) (Date_of (new_Date host)) = Inr now \<and>
           getCalculationHistory store' =
             Inr (\<lparr>params_part = JSON_params (timezone host) p, result_part = JSON_result r,
                   id' = generateId host, createdAt = now\<rparr> # prior)"
proof -
  obtain now where now: "toISOString (timezone host) (Date_of (new_Date host)) = Inr now"
    using toISOString_valid by blast
  let ?item = "\<lparr>params_part = JSON_params (timezone host) p, result_part = JSON_result r,
                   id' = generateId host, createdAt = now\<rparr>"
  let ?store' = "setItem ''calculationHistory'' (JSON_stringify (?item # prior)) store"
  have "saveCalculation host p r store = Inr ?store'"
    using assms now by (simp add: saveCalculation_def Let_def JSON_item_def)
  moreover have "getCalculationHistory ?store' = Inr (?item # prior)"
    by (rule getCalculationHistory_setItem)
  ultimately show ?thesis using now by blast
qed

text \<open>
  Claim C7. The identifier of a saved record is to differ from the identifiers of all
  records saved before; the source calls it a unique ID. It does not: \<^verbatim>\<open>generateId\<close>
  joins the clock reading and a random number and looks at no stored identifier. Two
  saves on an empty store that read the clock at 1700000000000 and draw the random
  number 0.123456 (\<^verbatim>\<open>0.4fzyo82mvyq\<close> in base 36) leave two records with the one
  identifier \<^verbatim>\<open>loyw3v284fzyo82mvyq\<close>.
\<close>

theorem two_saves_in_one_millisecond:
  "map id' (projr (getCalculationHistory (projr (saveCalculation
      \<lparr>timezone = \<lambda>_. 0, Date_now = 1700000000000,
       new_Date = \<lparr>fullYear = 2023, month = 10, dayOfMonth = 14, msOfDay = 80000000\<rparr>,
       Math_random_toString_36 = ''0.4fzyo82mvyq''\<rparr>
      \<lparr>principal = Num 10000, rate = Num 5, time = Num 1, frequency = annually,
       startDate = None\<rparr>
      \<lparr>finalAmount = Num 10500, totalInterest = Num 500,
       yearlyBreakdown = [\<lparr>year = Num 1, amount = Num 10500, interestEarned = Num 500,
                           date = None\<rparr>],
       formula = ''A = P(1 + r/n)^(nt)''\<rparr>
      (projr (saveCalculation
         \<lparr>timezone = \<lambda>_. 0, Date_now = 1700000000000,
       new_Date = \<lparr>fullYear = 2023, month = 10, dayOfMonth = 14, msOfDay = 80000000\<rparr>,
       Math_random_toString_36 = ''0.4fzyo82mvyq''\<rparr>
         \<lparr>principal = Num 10000, rate = Num 5, time = Num 1, frequency = annually,
       startDate = None\<rparr>
         \<lparr>finalAmount = Num 10500, totalInterest = Num 500,
       yearlyBreakdown = [\<lparr>year = Num 1, amount = Num 10500, interestEarned = Num 500,
                           date = None\<rparr>],
       formula = ''A = P(1 + r/n)^(nt)''\<rparr>
         Map.empty)))))) =
   [''loyw3v284fzyo82mvyq'', ''loyw3v284fzyo82mvyq'']"
  by (simp add: saveCalculation_def Let_def toISOString_def generateId_def toString_36_def
      digits36.simps digit36_def JSON_item_def
      getCalculationHistory_def getItem_def setItem_def JSON_parse_def JSON_stringify_def)

text \<open>
  What is read back is what JSON keeps: a result whose final amount is infinite reads
  back with \<^verbatim>\<open>null\<close> in its place.
\<close>

lemma saved_infinity_reads_as_null:
  "map (finalAmount \<circ> result_part) (projr (getCalculationHistory (projr (saveCalculation
      \<lparr>timezone = \<lambda>_. 0, Date_now = 1700000000000,
       new_Date = \<lparr>fullYear = 2023, month = 10, dayOfMonth = 14, msOfDay = 80000000\<rparr>,
       Math_random_toString_36 = ''0.4fzyo82mvyq''\<rparr>
      \<lparr>principal = Infinity, rate = Num 5, time = Num 0, frequency = annually,
       startDate = None\<rparr>
      \<lparr>finalAmount = Infinity, totalInterest = NaN, yearlyBreakdown = [],
       formula = ''A = P(1 + r/n)^(nt)''\<rparr>
      Map.empty)))) = [None]"
  by (simp add: saveCalculation_def Let_def toISOString_def JSON_item_def JSON_result_def
      JSON_number_def getCalculationHistory_def getItem_def setItem_def JSON_parse_def
      JSON_stringify_def)

end
